theory Spec2Isabelle
  imports Complex_Main
begin

section \<open>Data model of \<open>src/main.ts\<close>\<close>

text \<open>
  The plugin class \<open>ImageConverterPlugin\<close> of \<open>src/main.ts\<close> handles the editor's drop and
  paste events. Every value the handlers read is modelled as the source has it; the
  collaborators whose code is not part of \<open>main.ts\<close> (the capability registry, the folder and
  filename management, the image processor, the link formatter, the vault, the dialogs) are
  the fields of the record \<open>host\<close> below, so every theorem holds for any behaviour of theirs.
\<close>

type_synonym bytes = "nat list"

text \<open>\<open>T extends { name: string }\<close>: every preset, and a browser \<open>File\<close>, has a name.\<close>

record named =
  name :: string

text \<open>A browser \<open>File\<close>: \<open>file.name\<close>, \<open>file.type\<close>, the bytes \<open>file.arrayBuffer()\<close> yields;
  \<open>file.size\<close> is the number of those bytes.\<close>

record File = named +
  ftype :: string
  content :: bytes

definition size_of :: "File \<Rightarrow> nat" where
  "size_of f = length (content f)"

text \<open>An entry of the vault (\<open>TFile\<close>, \<open>TAbstractFile\<close>): only its \<open>path\<close> is read.\<close>

record tfile =
  path :: string

record editor_position =
  line :: nat
  ch :: nat

text \<open>A clipboard item as the paste handler collects it: \<open>{ kind, type, file }\<close>.\<close>

record clipboard_item =
  kind :: string
  item_type :: string
  item_file :: "File option"

text \<open>The presets. The fields are the ones \<open>main.ts\<close> reads, and the pattern lists of the
  spec's data model, which only the host's predicates look at.\<close>

record conversion_preset = named +
  outputFormat :: string
  quality :: nat
  colorDepth :: rat
  resizeMode :: string
  desiredWidth :: nat
  desiredHeight :: nat
  desiredLongestEdge :: nat
  enlargeOrReduce :: string
  allowLargerFiles :: bool
  skipConversionPatterns :: string

record filename_preset = named +
  conflictResolution :: string
  skipRenamePatterns :: string

record folder_preset = named +
  folder_template :: string

record link_format_preset = named +
  linkFormat :: string
  pathFormat :: string

record resize_preset = named +
  resize_template :: string

record link_format_settings =
  selectedLinkFormatPreset :: string
  linkFormatPresets :: "link_format_preset list"

record resize_settings =
  selectedResizePreset :: string
  resizePresets :: "resize_preset list"

text \<open>\<open>this.settings\<close>. The nine conversion settings that stand in when no conversion preset
  is selected (\<open>this.settings.outputFormat\<close>, ...) carry the prefix \<open>settings_\<close>, since the
  preset's fields have the same names.\<close>

record settings =
  modalBehavior :: string
  selectedConversionPreset :: string
  conversionPresets :: "conversion_preset list"
  selectedFilenamePreset :: string
  filenamePresets :: "filename_preset list"
  selectedFolderPreset :: string
  folderPresets :: "folder_preset list"
  linkFormatSettings :: link_format_settings
  nonDestructiveResizeSettings :: resize_settings
  neverProcessFilenames :: string
  revertToOriginalIfLarger :: bool
  showSpaceSavedNotification :: bool
  cursorLocation :: string
  settings_outputFormat :: string
  settings_quality :: nat
  settings_colorDepth :: rat
  settings_resizeMode :: string
  settings_desiredWidth :: nat
  settings_desiredHeight :: nat
  settings_desiredLongestEdge :: nat
  settings_enlargeOrReduce :: string
  settings_allowLargerFiles :: bool

text \<open>A value that a \<open>catch (error)\<close> receives: an \<open>Error\<close> with its message, or a value that
  is no \<open>Error\<close> instance and has no \<open>message\<close> (a thrown string, a rejected event).\<close>

datatype thrown = Error string | NonError

text \<open>The arguments of \<open>imageProcessor.processImage\<close> after the file, in the source's order:
  output format, quality / 100, colour depth, resize mode, width, height, longest edge,
  enlarge-or-reduce, allow-larger-files.\<close>

type_synonym process_args =
  "string \<times> rat \<times> rat \<times> string \<times> nat \<times> nat \<times> nat \<times> string \<times> bool"

text \<open>The five presets a unit works with; a preset is \<open>None\<close> where the source's variable is
  \<open>undefined\<close> (\<open>presetArray[0]\<close> of an empty array).\<close>

type_synonym preset_bundle =
  "conversion_preset option \<times> filename_preset option \<times> folder_preset option \<times>
   link_format_preset option \<times> resize_preset option"

text \<open>
  The collaborators. Each field is what the call of that name answers: a thrown value is
  \<open>Inl\<close> (for \<open>ensureFolderExists\<close>, which returns nothing, \<open>Some\<close>). The two dialogs take the
  file of the unit that opens them, so that the user may answer each unit differently:
  \<open>confirmDialog\<close> is the "ask" dialog, whose only callback resolves the promise with \<open>true\<close>;
  \<open>presetSelectionModal\<close> hands back the five chosen presets. A dialog that never calls back
  leaves the unit pending for ever and is not part of this model. \<open>createBinary\<close> answers a
  \<open>TFile\<close> or throws, as the vault declares it (\<open>Promise<TFile>\<close>), so the source's
  \<open>if (!tfile)\<close> branches are never taken and have no counterpart here.
\<close>

record host =
  isSupported :: "string \<Rightarrow> string \<Rightarrow> bool"
  matches_patterns :: "string \<Rightarrow> string \<Rightarrow> bool"
  should_skip_rename :: "string \<Rightarrow> filename_preset \<Rightarrow> bool"
  should_skip_conversion :: "string \<Rightarrow> conversion_preset \<Rightarrow> bool"
  determineDestination ::
    "File \<Rightarrow> tfile \<Rightarrow> conversion_preset option \<Rightarrow> filename_preset option \<Rightarrow>
     folder_preset option \<Rightarrow> thrown + (string \<times> string)"
  ensureFolderExists :: "string \<Rightarrow> thrown option"
  handleNameConflicts :: "string \<Rightarrow> string \<Rightarrow> string \<Rightarrow> thrown + string"
  combinePath :: "string \<Rightarrow> string \<Rightarrow> string"
  getAbstractFileByPath :: "string \<Rightarrow> tfile option"
  createBinary :: "string \<Rightarrow> bytes \<Rightarrow> thrown + tfile"
  processImage :: "File \<Rightarrow> process_args \<Rightarrow> thrown + bytes"
  formatLink :: "string \<Rightarrow> string \<Rightarrow> string \<Rightarrow> tfile option \<Rightarrow> resize_preset option \<Rightarrow> string"
  getActiveFile :: "tfile option"
  confirmDialog :: "File \<Rightarrow> thrown option"
  presetSelectionModal :: "File \<Rightarrow> thrown + preset_bundle"

text \<open>
  What a handler does to the world, in the order it does it. \<open>Notice\<close> is \<open>new Notice(text)\<close>.
  \<open>SizeComparison a b s d n\<close> is the notice of \<open>showSizeComparisonNotification\<close>, whose text is
  \<open>a\<close>, an arrow, \<open>b\<close>, and in brackets the sign \<open>s\<close> and the percentage
  \<open>(d / n * 100).toFixed(1)\<close>: that quotient is a floating-point value, so the event keeps its
  operands \<open>d = newSize - originalSize\<close> and \<open>n = originalSize\<close> instead of its digits.
  \<open>ProcessImageCall\<close>, \<open>CreateBinaryCall\<close> and \<open>EnsureFolderCall\<close> are the calls of the
  transcoding service and of the vault; \<open>ReplaceRange\<close> and \<open>SetCursor\<close> the calls of the
  editor; \<open>PreventDefault\<close> is \<open>evt.preventDefault()\<close>.
\<close>

datatype event =
    Notice string
  | SizeComparison string string string int nat
  | ConsoleWarn string
  | ConsoleError string
  | EnsureFolderCall string
  | ProcessImageCall File process_args
  | CreateBinaryCall string bytes
  | ReplaceRange string editor_position
  | SetCursor editor_position
  | PreventDefault

fun is_notice :: "event \<Rightarrow> bool" where
  "is_notice (Notice _) = True"
| "is_notice (SizeComparison _ _ _ _ _) = True"
| "is_notice _ = False"

fun is_transcode :: "event \<Rightarrow> bool" where
  "is_transcode (ProcessImageCall _ _) = True"
| "is_transcode _ = False"

fun is_write :: "event \<Rightarrow> bool" where
  "is_write (CreateBinaryCall _ _) = True"
| "is_write _ = False"

fun is_size_comparison :: "event \<Rightarrow> bool" where
  "is_size_comparison (SizeComparison _ _ _ _ _) = True"
| "is_size_comparison _ = False"

fun is_editor_call :: "event \<Rightarrow> bool" where
  "is_editor_call (ReplaceRange _ _) = True"
| "is_editor_call (SetCursor _) = True"
| "is_editor_call _ = False"

section \<open>Strings\<close>

text \<open>A JavaScript string is the list of its code units, so \<open>length\<close> is \<open>.length\<close>. The
  characters of HOL are eight bits wide: the model is exact for strings whose code units are
  below 256, as all the literals of the source are but the arrow of the size notice, which
  the event \<open>SizeComparison\<close> does not spell out.\<close>

definition startsWith :: "string \<Rightarrow> string \<Rightarrow> bool" where
  "startsWith s p = (take (length p) s = p)"

fun includes_str :: "string \<Rightarrow> string \<Rightarrow> bool" where
  "includes_str [] sub = (sub = [])"
| "includes_str (c # s) sub = (startsWith (c # s) sub \<or> includes_str s sub)"

text \<open>The decimal digits of a non-negative integer, as a template literal prints it.\<close>

fun decimal :: "nat \<Rightarrow> string" where
  "decimal n =
     (if n < 10 then [''0123456789'' ! n]
      else decimal (n div 10) @ [''0123456789'' ! (n mod 10)])"

declare decimal.simps [simp del]

text \<open>
  \<open>(a / b).toFixed(1)\<close> for integers \<open>a \<ge> 0\<close> and \<open>b > 0\<close> whose quotient the double holds
  exactly, which is the case for a file size divided by a power of two. ECMAScript picks the
  integer \<open>n\<close> for which \<open>n / 10 - x\<close> is closest to zero, the larger one of two, and prints
  its digits with a point before the last one.
\<close>

definition toFixed1 :: "nat \<Rightarrow> nat \<Rightarrow> string" where
  "toFixed1 a b =
     (let n = (20 * a + b) div (2 * b)
      in decimal (n div 10) @ ''.'' @ decimal (n mod 10))"

section \<open>The helpers of the plugin class\<close>

text \<open>\<open>formatFileSize\<close> on a file size: an integer below \<open>2 ^ 53\<close>, which a double holds
  exactly, as it holds the quotients by 1024 and by 1024 * 1024.\<close>

definition formatFileSize :: "nat \<Rightarrow> string" where
  "formatFileSize bytes =
     (if bytes < 1024 then decimal bytes @ '' bytes''
      else if bytes < 1024 * 1024 then toFixed1 bytes 1024 @ '' KB''
      else toFixed1 bytes (1024 * 1024) @ '' MB'')"

definition showSizeComparisonNotification :: "settings \<Rightarrow> nat \<Rightarrow> nat \<Rightarrow> event list" where
  "showSizeComparisonNotification st originalSize newSize =
     (if \<not> showSpaceSavedNotification st then []
      else [SizeComparison (formatFileSize originalSize) (formatFileSize newSize)
              (if newSize > originalSize then ''+'' else '''')
              (int newSize - int originalSize) originalSize])"

text \<open>\<open>getPresetByName\<close> returns the preset, \<open>None\<close> for \<open>undefined\<close>, and what it logged.\<close>

definition getPresetByName ::
  "string \<Rightarrow> 'a named_scheme list \<Rightarrow> string \<Rightarrow> 'a named_scheme option \<times> event list" where
  \<open>getPresetByName presetName presetArray presetType =
     (case find (\<lambda>p. name p = presetName) presetArray of
        None \<Rightarrow>
          (case presetArray of [] \<Rightarrow> None | p # _ \<Rightarrow> Some p,
           [ConsoleWarn (presetType @ '' preset "'' @ presetName @ ''" not found, using default'')])
      | Some preset \<Rightarrow> (Some preset, []))\<close>

text \<open>\<open>a || b\<close> on strings: the empty string is falsy.\<close>

definition or_else :: "string \<Rightarrow> string \<Rightarrow> string" where
  "or_else a b = (if a = [] then b else a)"

text \<open>The first half of \<open>insertLinkAtCursorPosition\<close>: the presets to use and the link
  that \<open>linkFormatter.formatLink\<close> makes of them.\<close>

definition formattedLinkFor ::
  "settings \<Rightarrow> host \<Rightarrow> string \<Rightarrow> link_format_preset option \<Rightarrow> resize_preset option \<Rightarrow>
   string" where
  "formattedLinkFor st h linkPath linkFormatPreset resizePreset =
     (let activeFile = getActiveFile h;
          linkFormatPresetToUse =
            (case linkFormatPreset of
               Some p \<Rightarrow> Some p
             | None \<Rightarrow>
                 find (\<lambda>p. name p = selectedLinkFormatPreset (linkFormatSettings st))
                   (linkFormatPresets (linkFormatSettings st)));
          resizePresetToUse =
            (case resizePreset of
               Some p \<Rightarrow> Some p
             | None \<Rightarrow>
                 find (\<lambda>p. name p = selectedResizePreset (nonDestructiveResizeSettings st))
                   (resizePresets (nonDestructiveResizeSettings st)))
      in formatLink h linkPath
           (case linkFormatPresetToUse of
              None \<Rightarrow> ''wikilink'' | Some p \<Rightarrow> or_else (linkFormat p) ''wikilink'')
           (case linkFormatPresetToUse of
              None \<Rightarrow> ''shortest'' | Some p \<Rightarrow> or_else (pathFormat p) ''shortest'')
           activeFile resizePresetToUse)"

definition insertLinkAtCursorPosition ::
  "settings \<Rightarrow> host \<Rightarrow> string \<Rightarrow> editor_position \<Rightarrow> link_format_preset option \<Rightarrow>
   resize_preset option \<Rightarrow> event list" where
  "insertLinkAtCursorPosition st h linkPath cursor linkFormatPreset resizePreset =
     (let formattedLink = formattedLinkFor st h linkPath linkFormatPreset resizePreset
      in ReplaceRange formattedLink cursor #
         (if cursorLocation st = ''back''
          then [SetCursor \<lparr>line = line cursor, ch = ch cursor + length formattedLink\<rparr>]
          else []))"

text \<open>Where the editor's cursor is after a sequence of editor calls that started with the
  cursor at \<open>c\<close>: \<open>setCursor\<close> moves it, and the source relies on the host to leave it in front
  of a text that \<open>replaceRange\<close> inserts at it ("keeps the cursor at the front by default (by
  doing nothing)").\<close>

fun cursor_after :: "editor_position \<Rightarrow> event list \<Rightarrow> editor_position" where
  "cursor_after c [] = c"
| "cursor_after c (SetCursor p # es) = cursor_after p es"
| "cursor_after c (_ # es) = cursor_after c es"

section \<open>One unit: the steps of a dropped or pasted file\<close>

text \<open>How a block of the unit ends: it goes on with a value, it executes \<open>return\<close> (the
  unit's promise resolves), or it throws.\<close>

datatype 'a completion = Continue 'a | Return | Throw thrown

definition thenDo ::
  "'a completion \<times> event list \<Rightarrow> ('a \<Rightarrow> 'b completion \<times> event list) \<Rightarrow>
   'b completion \<times> event list" where
  "thenDo m k =
     (case m of
        (Continue x, es) \<Rightarrow> (case k x of (r, es') \<Rightarrow> (r, es @ es'))
      | (Return, es) \<Rightarrow> (Return, es)
      | (Throw e, es) \<Rightarrow> (Throw e, es))"

text \<open>\<open>handleDrop\<close> and \<open>handlePaste\<close> repeat the same steps; where the two differ (the
  wording of the folder notice, the place where the \<open>try\<close> opens) the handler is named.\<close>

datatype handler = Drop | Paste

text \<open>Preset resolution (\<open>handleDrop\<close> lines 404-482, \<open>handlePaste\<close> lines 702-780).\<close>

definition resolvePresets ::
  "settings \<Rightarrow> host \<Rightarrow> File \<Rightarrow> preset_bundle completion \<times> event list" where
  "resolvePresets st h f =
     (case (if modalBehavior st = ''ask''
            then (case confirmDialog h f of Some e \<Rightarrow> Inl e | None \<Rightarrow> Inr True)
            else Inr (modalBehavior st = ''always'')) of
        Inl e \<Rightarrow> (Throw e, [])
      | Inr showModal \<Rightarrow>
          if showModal
          then (case presetSelectionModal h f of
                  Inl e \<Rightarrow> (Throw e, [])
                | Inr chosen \<Rightarrow> (Continue chosen, []))
          else
            (case getPresetByName (selectedConversionPreset st) (conversionPresets st)
                    ''Conversion'' of (conversionPreset, l1) \<Rightarrow>
             case getPresetByName (selectedFilenamePreset st) (filenamePresets st)
                    ''Filename'' of (filenamePreset, l2) \<Rightarrow>
             case getPresetByName (selectedFolderPreset st) (folderPresets st)
                    ''Folder'' of (folderPreset, l3) \<Rightarrow>
             case getPresetByName (selectedLinkFormatPreset (linkFormatSettings st))
                    (linkFormatPresets (linkFormatSettings st)) ''Link Format'' of
                    (linkFormatPreset, l4) \<Rightarrow>
             case getPresetByName (selectedResizePreset (nonDestructiveResizeSettings st))
                    (resizePresets (nonDestructiveResizeSettings st)) ''Resize'' of
                    (resizePreset, l5) \<Rightarrow>
               (Continue (conversionPreset, filenamePreset, folderPreset, linkFormatPreset,
                          resizePreset),
                l1 @ l2 @ l3 @ l4 @ l5)))"

text \<open>Step 3.2: the destination folder and the new filename.\<close>

definition step_determineDestination ::
  "host \<Rightarrow> File \<Rightarrow> tfile \<Rightarrow> conversion_preset option \<Rightarrow> filename_preset option \<Rightarrow>
   folder_preset option \<Rightarrow> (string \<times> string) completion \<times> event list" where
  \<open>step_determineDestination h f activeFile conversionPreset filenamePreset folderPreset =
     (case determineDestination h f activeFile conversionPreset filenamePreset folderPreset of
        Inl e \<Rightarrow>
          (Return,
           [ConsoleError ''Error determining destination and filename:'',
            Notice (''Failed to determine destination or filename for "'' @ name f @
                    ''". Check console for details.'')])
      | Inr result \<Rightarrow> (Continue result, []))\<close>

text \<open>The message of the \<open>TypeError\<close> that \<open>error.message.startsWith\<close> raises on a thrown
  value without a message. Only the console sees it.\<close>

definition typeErrorMessage :: string where
  "typeErrorMessage = ''Cannot read properties of undefined (reading 'startsWith')''"

definition folderFailedNotice :: "handler \<Rightarrow> string \<Rightarrow> string" where
  \<open>folderFailedNotice hr destinationPath =
     (case hr of
        Drop \<Rightarrow> ''Failed to create folder "'' @ destinationPath @ ''". Check console for details.''
      | Paste \<Rightarrow> ''Failed to create folder: '' @ destinationPath)\<close>

text \<open>Step 3.3: the destination folder.\<close>

definition step_ensureFolderExists ::
  "handler \<Rightarrow> host \<Rightarrow> string \<Rightarrow> unit completion \<times> event list" where
  "step_ensureFolderExists hr h destinationPath =
     (case ensureFolderExists h destinationPath of
        None \<Rightarrow> (Continue (), [EnsureFolderCall destinationPath])
      | Some (Error message) \<Rightarrow>
          if \<not> startsWith message ''Folder already exists''
          then (Return,
                [EnsureFolderCall destinationPath, ConsoleError ''Error creating folder:'',
                 Notice (folderFailedNotice hr destinationPath)])
          else (Continue (), [EnsureFolderCall destinationPath])
      | Some NonError \<Rightarrow> (Throw (Error typeErrorMessage), [EnsureFolderCall destinationPath]))"

text \<open>Step 3.4: filename conflicts. The result is the final filename, the entry found at
  the destination, and \<open>skipFurtherProcessing\<close>.\<close>

definition step_conflicts ::
  "host \<Rightarrow> File \<Rightarrow> filename_preset option \<Rightarrow> string \<Rightarrow> string \<Rightarrow>
   (string \<times> tfile option \<times> bool) completion \<times> event list" where
  \<open>step_conflicts h f filenamePreset destinationPath newFilename =
     (let fullPath = destinationPath @ ''/'' @ newFilename;
          existingFile = getAbstractFileByPath h fullPath
      in if (case filenamePreset of
               None \<Rightarrow> False | Some p \<Rightarrow> should_skip_rename h (name f) p)
         then (Continue (newFilename, existingFile, True),
               [Notice (''Skipped renaming/conversion of image "'' @ name f @
                        ''" due to skip pattern match.'')])
         else if (case filenamePreset of
                    None \<Rightarrow> False | Some p \<Rightarrow> conflictResolution p = ''increment'')
         then (case handleNameConflicts h destinationPath newFilename ''increment'' of
                 Inl e \<Rightarrow>
                   (Return,
                    [ConsoleError ''Error handling filename conflicts:'',
                     Notice (''Error incrementing filename for "'' @ name f @
                             ''". Check console for details.'')])
               | Inr incremented \<Rightarrow>
                   (Continue
                      (incremented,
                       getAbstractFileByPath h (destinationPath @ ''/'' @ incremented), False),
                    []))
         else (Continue (newFilename, existingFile, False), []))\<close>

text \<open>The arguments of \<open>processImage\<close>: the preset's, or the settings' without a preset.\<close>

definition processImageArgs :: "settings \<Rightarrow> conversion_preset option \<Rightarrow> process_args" where
  "processImageArgs st conversionPreset =
     (case conversionPreset of
        Some p \<Rightarrow>
          (outputFormat p, of_nat (quality p) / 100, colorDepth p, resizeMode p,
           desiredWidth p, desiredHeight p, desiredLongestEdge p, enlargeOrReduce p,
           allowLargerFiles p)
      | None \<Rightarrow>
          (settings_outputFormat st, of_nat (settings_quality st) / 100, settings_colorDepth st,
           settings_resizeMode st, settings_desiredWidth st, settings_desiredHeight st,
           settings_desiredLongestEdge st, settings_enlargeOrReduce st,
           settings_allowLargerFiles st))"

text \<open>Step 3.5.6: the notice of the \<open>catch\<close> around the processing of the image.\<close>

definition processingFailedNotice :: "string \<Rightarrow> string \<Rightarrow> thrown \<Rightarrow> string" where
  \<open>processingFailedNotice newFilename fileName error =
     (case error of
        Error message \<Rightarrow>
          if includes_str message ''File already exists''
          then ''Failed to process image: File "'' @ newFilename @ ''" already exists.''
          else if includes_str message ''Invalid input file type''
          then ''Failed to process image: Invalid input file type for "'' @ fileName @ ''".''
          else ''Failed to process image "'' @ fileName @ ''": '' @ message @
               ''. Check console for details.''
      | NonError \<Rightarrow>
          ''Failed to process image "'' @ fileName @ ''". Check console for details.'')\<close>

definition catchProcessing ::
  "string \<Rightarrow> File \<Rightarrow> thrown \<Rightarrow> unit completion \<times> event list" where
  "catchProcessing newFilename f error =
     (Return,
      [ConsoleError ''Image processing failed:'',
       Notice (processingFailedNotice newFilename (name f) error)])"

text \<open>\<open>try { body } catch (error) { handler }\<close>.\<close>

definition tryCatch ::
  "'a completion \<times> event list \<Rightarrow> (thrown \<Rightarrow> 'a completion \<times> event list) \<Rightarrow>
   'a completion \<times> event list" where
  "tryCatch body handler =
     (case body of
        (Throw e, es) \<Rightarrow> (case handler e of (r, es') \<Rightarrow> (r, es @ es'))
      | (Continue x, es) \<Rightarrow> (Continue x, es)
      | (Return, es) \<Rightarrow> (Return, es))"

text \<open>The two calls that a unit awaits inside a \<open>try\<close>, with their record in the trace.\<close>

definition callProcessImage ::
  "host \<Rightarrow> File \<Rightarrow> process_args \<Rightarrow> bytes completion \<times> event list" where
  "callProcessImage h f args =
     (case processImage h f args of
        Inl e \<Rightarrow> (Throw e, [ProcessImageCall f args])
      | Inr processedImage \<Rightarrow> (Continue processedImage, [ProcessImageCall f args]))"

definition callCreateBinary ::
  "host \<Rightarrow> string \<Rightarrow> bytes \<Rightarrow> tfile completion \<times> event list" where
  "callCreateBinary h newFullPath buffer =
     (case createBinary h newFullPath buffer of
        Inl e \<Rightarrow> (Throw e, [CreateBinaryCall newFullPath buffer])
      | Inr created \<Rightarrow> (Continue created, [CreateBinaryCall newFullPath buffer]))"

text \<open>Steps 3.5.3 to 3.5.6: the \<open>try\<close> block that transcodes, writes and links.\<close>

definition step_processImage ::
  "settings \<Rightarrow> host \<Rightarrow> editor_position \<Rightarrow> File \<Rightarrow> conversion_preset option \<Rightarrow>
   link_format_preset option \<Rightarrow> resize_preset option \<Rightarrow> string \<Rightarrow> string \<Rightarrow>
   unit completion \<times> event list" where
  \<open>step_processImage st h cursor f conversionPreset linkFormatPreset resizePreset newFullPath
       newFilename =
     tryCatch
       (thenDo (callProcessImage h f (processImageArgs st conversionPreset))
          (\<lambda>processedImage.
        thenDo
          (if revertToOriginalIfLarger st \<and> length processedImage > size_of f
           then
             thenDo
               (Continue (),
                showSizeComparisonNotification st (size_of f) (length processedImage) @
                [Notice (''Using original image for "'' @ name f @
                         ''" as processed image is larger.'')])
               (\<lambda>_. callCreateBinary h newFullPath (content f))
           else
             thenDo
               (Continue (),
                showSizeComparisonNotification st (size_of f) (length processedImage))
               (\<lambda>_. callCreateBinary h newFullPath processedImage))
          (\<lambda>created.
             (Continue (),
              insertLinkAtCursorPosition st h (path created) cursor linkFormatPreset
                resizePreset))))
       (catchProcessing newFilename f)\<close>

text \<open>Step 3.5.2: a file whose name matches a skip pattern of the conversion preset is
  written as it is.\<close>

definition step_saveOriginal ::
  "settings \<Rightarrow> host \<Rightarrow> editor_position \<Rightarrow> File \<Rightarrow> link_format_preset option \<Rightarrow>
   resize_preset option \<Rightarrow> string \<Rightarrow> unit completion \<times> event list" where
  \<open>step_saveOriginal st h cursor f linkFormatPreset resizePreset newFullPath =
     thenDo
       (Continue (),
        [Notice (''Skipped conversion of image "'' @ name f @
                 ''" due to skip pattern match in the conversion preset.'')])
       (\<lambda>_.
     thenDo (callCreateBinary h newFullPath (content f))
       (\<lambda>created.
          (Continue (),
           insertLinkAtCursorPosition st h (path created) cursor linkFormatPreset
             resizePreset)))\<close>

text \<open>Steps 3.5 and 3.6: process, reuse or skip.\<close>

definition skipsConversion :: "host \<Rightarrow> File \<Rightarrow> conversion_preset option \<Rightarrow> bool" where
  "skipsConversion h f conversionPreset =
     (case conversionPreset of
        None \<Rightarrow> False
      | Some c \<Rightarrow> should_skip_conversion h (name f) c)"

definition reusesExisting :: "tfile option \<Rightarrow> filename_preset option \<Rightarrow> bool" where
  "reusesExisting existingFile filenamePreset =
     (case existingFile of
        None \<Rightarrow> False
      | Some existing \<Rightarrow>
          (case filenamePreset of
             None \<Rightarrow> False
           | Some p \<Rightarrow> conflictResolution p = ''reuse''))"

definition linkExisting ::
  "settings \<Rightarrow> host \<Rightarrow> editor_position \<Rightarrow> tfile option \<Rightarrow> link_format_preset option \<Rightarrow>
   resize_preset option \<Rightarrow> event list" where
  "linkExisting st h cursor existingFile linkFormatPreset resizePreset =
     (case existingFile of
        None \<Rightarrow> []
      | Some existing \<Rightarrow>
          insertLinkAtCursorPosition st h (path existing) cursor linkFormatPreset resizePreset)"

definition step_processReuseOrSkip ::
  "settings \<Rightarrow> host \<Rightarrow> editor_position \<Rightarrow> File \<Rightarrow> conversion_preset option \<Rightarrow>
   filename_preset option \<Rightarrow> link_format_preset option \<Rightarrow> resize_preset option \<Rightarrow>
   string \<Rightarrow> string \<Rightarrow> tfile option \<Rightarrow> bool \<Rightarrow> unit completion \<times> event list" where
  "step_processReuseOrSkip st h cursor f conversionPreset filenamePreset linkFormatPreset
       resizePreset destinationPath newFilename existingFile skipFurtherProcessing =
     (let newFullPath = combinePath h destinationPath newFilename
      in if \<not> skipFurtherProcessing
         then
           if reusesExisting existingFile filenamePreset
           then (Return, linkExisting st h cursor existingFile linkFormatPreset resizePreset)
           else if skipsConversion h f conversionPreset
           then step_saveOriginal st h cursor f linkFormatPreset resizePreset newFullPath
           else step_processImage st h cursor f conversionPreset linkFormatPreset resizePreset
                  newFullPath newFilename
         else (Continue (), linkExisting st h cursor existingFile linkFormatPreset resizePreset))"

text \<open>Steps 3.2 to 3.6 in their order, for the presets of the unit.\<close>

definition unitSteps ::
  "handler \<Rightarrow> settings \<Rightarrow> host \<Rightarrow> editor_position \<Rightarrow> tfile \<Rightarrow> File \<Rightarrow> preset_bundle \<Rightarrow>
   unit completion \<times> event list" where
  "unitSteps hr st h cursor activeFile f bundle =
     (case bundle of (conversionPreset, filenamePreset, folderPreset, linkFormatPreset,
                      resizePreset) \<Rightarrow>
      thenDo (step_determineDestination h f activeFile conversionPreset filenamePreset
                folderPreset)
        (\<lambda>(destinationPath, newFilename).
      thenDo (step_ensureFolderExists hr h destinationPath)
        (\<lambda>_.
      thenDo (step_conflicts h f filenamePreset destinationPath newFilename)
        (\<lambda>(finalFilename, existingFile, skipFurtherProcessing).
      step_processReuseOrSkip st h cursor f conversionPreset filenamePreset linkFormatPreset
        resizePreset destinationPath finalFilename existingFile skipFurtherProcessing))))"

text \<open>How the promise of a unit settles.\<close>

datatype outcome = Fulfilled | Rejected thrown

text \<open>Step 3.7: the outermost \<open>try\<close>/\<open>catch\<close> of a unit.\<close>

definition catchUnexpected :: "'a completion \<times> event list \<Rightarrow> outcome \<times> event list" where
  "catchUnexpected m =
     (case m of
        (Throw e, es) \<Rightarrow>
          (Fulfilled,
           es @ [ConsoleError ''An unexpected error occurred:'',
                 Notice ''An unexpected error occurred. Check console for details.''])
      | (_, es) \<Rightarrow> (Fulfilled, es))"

text \<open>The callback of \<open>supportedFiles.map\<close> in \<open>handleDrop\<close>: its \<open>try\<close> opens before the
  presets are resolved.\<close>

definition dropUnit ::
  "settings \<Rightarrow> host \<Rightarrow> editor_position \<Rightarrow> tfile \<Rightarrow> File \<Rightarrow> outcome \<times> event list" where
  "dropUnit st h cursor activeFile f =
     catchUnexpected
       (thenDo (resolvePresets st h f) (unitSteps Drop st h cursor activeFile f))"

text \<open>The callback of \<open>supportedFiles.map\<close> in \<open>handlePaste\<close>: its \<open>try\<close> opens after the
  presets are resolved, at step 3.2.\<close>

definition pasteUnit ::
  "settings \<Rightarrow> host \<Rightarrow> editor_position \<Rightarrow> tfile \<Rightarrow> File \<Rightarrow> outcome \<times> event list" where
  "pasteUnit st h cursor activeFile f =
     (case resolvePresets st h f of
        (Throw e, es) \<Rightarrow> (Rejected e, es)
      | (Return, es) \<Rightarrow> (Fulfilled, es)
      | (Continue bundle, es) \<Rightarrow>
          (case catchUnexpected (unitSteps Paste st h cursor activeFile f bundle) of
             (r, es') \<Rightarrow> (r, es @ es')))"

section \<open>The handlers\<close>

text \<open>\<open>await Promise.all(filePromises)\<close>: fulfilled when every unit is, rejected with the
  rejection of the first unit in the list that rejects.\<close>

fun promiseAll :: "outcome list \<Rightarrow> outcome" where
  "promiseAll [] = Fulfilled"
| "promiseAll (Fulfilled # os) = promiseAll os"
| "promiseAll (Rejected e # os) = Rejected e"

text \<open>What a handler leaves behind: how its own promise settles, what it did itself, and for
  each unit, in the order of the files, how the unit settled and what it did. The units
  interleave in time; each keeps its own trace.\<close>

type_synonym handled = "outcome \<times> event list \<times> (outcome \<times> event list) list"

definition handleDrop ::
  "settings \<Rightarrow> host \<Rightarrow> File list \<Rightarrow> editor_position \<Rightarrow> handled" where
  "handleDrop st h fileData cursor =
     (let supportedFiles = filter (\<lambda>d. isSupported h (ftype d) (name d)) fileData
      in if supportedFiles = [] then (Fulfilled, [], [])
         else
           (case getActiveFile h of
              None \<Rightarrow> (Fulfilled, [Notice ''No active file detected.''], [])
            | Some activeFile \<Rightarrow>
                (let filePromises = map (dropUnit st h cursor activeFile) supportedFiles
                 in (promiseAll (map fst filePromises), [], filePromises))))"

text \<open>The files of the clipboard items that \<open>handlePaste\<close> keeps.\<close>

definition pastedFiles :: "host \<Rightarrow> clipboard_item list \<Rightarrow> File list" where
  "pastedFiles h itemData =
     concat
       (map (\<lambda>d. case item_file d of
                    None \<Rightarrow> []
                  | Some f \<Rightarrow>
                      if kind d = ''file'' \<and> isSupported h (item_type d) (name f)
                      then [f] else [])
          itemData)"

definition handlePaste ::
  "settings \<Rightarrow> host \<Rightarrow> clipboard_item list \<Rightarrow> editor_position \<Rightarrow> handled" where
  "handlePaste st h itemData cursor =
     (let supportedFiles = pastedFiles h itemData
      in if supportedFiles = [] then (Fulfilled, [], [])
         else
           (case getActiveFile h of
              None \<Rightarrow> (Fulfilled, [Notice ''No active file found!''], [])
            | Some activeFile \<Rightarrow>
                (let filePromises = map (pasteUnit st h cursor activeFile) supportedFiles
                 in (promiseAll (map fst filePromises), [], filePromises))))"

text \<open>The listener of \<open>editor-drop\<close> that \<open>dropPaste_registerEvents\<close> registers (on a
  desktop; on a mobile platform it registers none): \<open>dataTransfer\<close> is the files of
  \<open>evt.dataTransfer\<close>, \<open>pos\<close> is \<open>editor.posAtMouse(evt)\<close>.\<close>

definition editor_drop ::
  "settings \<Rightarrow> host \<Rightarrow> File list option \<Rightarrow> editor_position option \<Rightarrow> handled" where
  "editor_drop st h dataTransfer pos =
     (case dataTransfer of
        None \<Rightarrow>
          (Fulfilled,
           [ConsoleWarn ''DataTransfer object is null initially. Cannot process drop event.''],
           [])
      | Some fileData \<Rightarrow>
          (case pos of
             None \<Rightarrow> (Fulfilled, [ConsoleWarn ''Could not determine drop position''], [])
           | Some p \<Rightarrow>
               (let hasSupportedFiles =
                      list_ex (\<lambda>d. isSupported h (ftype d) (name d) \<and>
                                   \<not> matches_patterns h (name d) (neverProcessFilenames st))
                        fileData
                in if hasSupportedFiles
                   then (case handleDrop st h fileData p of
                           (r, es, us) \<Rightarrow> (r, PreventDefault # es, us))
                   else (Fulfilled, [], []))))"

text \<open>The listener of \<open>editor-paste\<close>: \<open>clipboardData\<close> is the items of
  \<open>evt.clipboardData\<close>, \<open>cursor\<close> is \<open>editor.getCursor()\<close>.\<close>

definition editor_paste ::
  "settings \<Rightarrow> host \<Rightarrow> clipboard_item list option \<Rightarrow> editor_position \<Rightarrow> handled" where
  "editor_paste st h clipboardData cursor =
     (case clipboardData of
        None \<Rightarrow>
          (Fulfilled,
           [ConsoleWarn ''ClipboardData object is null. Cannot process paste event.''], [])
      | Some itemData \<Rightarrow>
          (let hasSupportedItems =
                 list_ex (\<lambda>d. kind d = ''file'' \<and>
                              (case item_file d of
                                 None \<Rightarrow> False
                               | Some f \<Rightarrow>
                                   isSupported h (item_type d) (name f) \<and>
                                   \<not> matches_patterns h (name f) (neverProcessFilenames st)))
                   itemData
           in if hasSupportedItems
              then (case handlePaste st h itemData cursor of
                      (r, es, us) \<Rightarrow> (r, PreventDefault # es, us))
              else (Fulfilled, [], [])))"

section \<open>Concrete inputs\<close>

text \<open>Three files, the presets and settings of a small vault, and a host for them: every
  PNG is supported, a pattern matches the names that contain it, the destination is the
  folder \<open>attachments\<close> under the file's own name, the vault is empty and every write
  succeeds, and the image processor keeps the first byte of a file.\<close>

definition photo :: File where
  "photo = \<lparr>name = ''photo.png'', ftype = ''image/png'', content = [1, 2, 3]\<rparr>"

definition secret :: File where
  "secret = \<lparr>name = ''secret.png'', ftype = ''image/png'', content = [4, 5]\<rparr>"

definition broken :: File where
  "broken = \<lparr>name = ''broken.png'', ftype = ''image/png'', content = [6]\<rparr>"

definition webp :: conversion_preset where
  "webp = \<lparr>name = ''webp'', outputFormat = ''WEBP'', quality = 80, colorDepth = 1,
     resizeMode = ''None'', desiredWidth = 0, desiredHeight = 0, desiredLongestEdge = 0,
     enlargeOrReduce = ''Auto'', allowLargerFiles = False, skipConversionPatterns = []\<rparr>"

definition rawCopy :: conversion_preset where
  "rawCopy = \<lparr>name = ''raw'', outputFormat = ''WEBP'', quality = 80, colorDepth = 1,
     resizeMode = ''None'', desiredWidth = 0, desiredHeight = 0, desiredLongestEdge = 0,
     enlargeOrReduce = ''Auto'', allowLargerFiles = False, skipConversionPatterns = ''photo''\<rparr>"

definition plainName :: filename_preset where
  "plainName = \<lparr>name = ''plain'', conflictResolution = ''increment'', skipRenamePatterns = []\<rparr>"

definition reuseName :: filename_preset where
  "reuseName = \<lparr>name = ''reuse'', conflictResolution = ''reuse'', skipRenamePatterns = []\<rparr>"

definition keepName :: filename_preset where
  "keepName = \<lparr>name = ''keep'', conflictResolution = ''increment'', skipRenamePatterns = ''photo''\<rparr>"

definition attachments :: folder_preset where
  "attachments = \<lparr>name = ''attachments'', folder_template = ''attachments''\<rparr>"

definition wikilink :: link_format_preset where
  "wikilink = \<lparr>name = ''wikilink'', linkFormat = ''wikilink'', pathFormat = ''shortest''\<rparr>"

definition noResize :: resize_preset where
  "noResize = \<lparr>name = ''none'', resize_template = []\<rparr>"

definition today :: tfile where
  "today = \<lparr>path = ''notes/today.md''\<rparr>"

definition here :: editor_position where
  "here = \<lparr>line = 2, ch = 5\<rparr>"

definition demo_settings :: settings where
  "demo_settings =
     \<lparr>modalBehavior = ''never'',
      selectedConversionPreset = ''webp'', conversionPresets = [webp, rawCopy],
      selectedFilenamePreset = ''plain'', filenamePresets = [plainName, reuseName, keepName],
      selectedFolderPreset = ''attachments'', folderPresets = [attachments],
      linkFormatSettings =
        \<lparr>selectedLinkFormatPreset = ''wikilink'', linkFormatPresets = [wikilink]\<rparr>,
      nonDestructiveResizeSettings =
        \<lparr>selectedResizePreset = ''none'', resizePresets = [noResize]\<rparr>,
      neverProcessFilenames = ''secret'',
      revertToOriginalIfLarger = True, showSpaceSavedNotification = True,
      cursorLocation = ''front'',
      settings_outputFormat = ''WEBP'', settings_quality = 75, settings_colorDepth = 1,
      settings_resizeMode = ''None'', settings_desiredWidth = 0, settings_desiredHeight = 0,
      settings_desiredLongestEdge = 0, settings_enlargeOrReduce = ''Auto'',
      settings_allowLargerFiles = False\<rparr>"

definition demo_host :: host where
  "demo_host =
     \<lparr>isSupported = (\<lambda>t n. t = ''image/png''),
      matches_patterns = (\<lambda>n patterns. patterns \<noteq> [] \<and> includes_str n patterns),
      should_skip_rename =
        (\<lambda>n p. skipRenamePatterns p \<noteq> [] \<and> includes_str n (skipRenamePatterns p)),
      should_skip_conversion =
        (\<lambda>n c. skipConversionPatterns c \<noteq> [] \<and> includes_str n (skipConversionPatterns c)),
      determineDestination = (\<lambda>f a c p d. Inr (''attachments'', name f)),
      ensureFolderExists = (\<lambda>d. None),
      handleNameConflicts = (\<lambda>d n m. Inr n),
      combinePath = (\<lambda>d n. d @ ''/'' @ n),
      getAbstractFileByPath = (\<lambda>p. None),
      createBinary = (\<lambda>p b. Inr \<lparr>path = p\<rparr>),
      processImage = (\<lambda>f args. Inr (take 1 (content f))),
      formatLink = (\<lambda>p lf pf a r. ''![['' @ p @ '']]''),
      getActiveFile = Some today,
      confirmDialog = (\<lambda>f. None),
      presetSelectionModal = (\<lambda>f. Inr (None, None, None, None, None))\<rparr>"

text \<open>The settings with another preset selected, or the cursor set behind the link.\<close>

definition settings_keepName :: settings where
  "settings_keepName = demo_settings\<lparr>selectedFilenamePreset := ''keep''\<rparr>"

definition settings_rawCopy :: settings where
  "settings_rawCopy = demo_settings\<lparr>selectedConversionPreset := ''raw''\<rparr>"

definition settings_reuse :: settings where
  "settings_reuse = demo_settings\<lparr>selectedFilenamePreset := ''reuse''\<rparr>"

definition settings_back :: settings where
  "settings_back = demo_settings\<lparr>cursorLocation := ''back''\<rparr>"

definition settings_always :: settings where
  "settings_always = demo_settings\<lparr>modalBehavior := ''always''\<rparr>"

text \<open>The host with one answer changed: an entry at the photo's destination; a processor
  whose output is two bytes longer than its input; a folder creation that fails, with each
  kind of message; a processor that refuses \<open>broken.png\<close>; a preset dialog that throws for
  \<open>broken.png\<close> and hands back the selected presets for any other file.\<close>

definition host_existing :: host where
  "host_existing =
     demo_host\<lparr>getAbstractFileByPath :=
       (\<lambda>p. if p = ''attachments/photo.png'' then Some \<lparr>path = p\<rparr> else None)\<rparr>"

definition host_larger :: host where
  "host_larger = demo_host\<lparr>processImage := (\<lambda>f args. Inr (content f @ [0, 0]))\<rparr>"

definition host_folder_exists :: host where
  "host_folder_exists =
     demo_host\<lparr>ensureFolderExists := (\<lambda>d. Some (Error ''Folder already exists.''))\<rparr>"

definition host_folder_denied :: host where
  "host_folder_denied =
     demo_host\<lparr>ensureFolderExists := (\<lambda>d. Some (Error ''Permission denied''))\<rparr>"

definition host_invalid :: host where
  "host_invalid =
     demo_host\<lparr>processImage :=
       (\<lambda>f args. if name f = ''broken.png'' then Inl (Error ''Invalid input file type'')
                  else Inr (take 1 (content f)))\<rparr>"

definition host_modal_fails :: host where
  "host_modal_fails =
     demo_host\<lparr>presetSelectionModal :=
       (\<lambda>f. if name f = ''broken.png'' then Inl (Error ''The preset dialog failed'')
            else Inr (Some webp, Some plainName, Some attachments, Some wikilink,
                      Some noResize))\<rparr>"

text \<open>The clipboard item of a pasted file.\<close>

definition pasted :: "File \<Rightarrow> clipboard_item" where
  "pasted f = \<lparr>kind = ''file'', item_type = ftype f, item_file = Some f\<rparr>"

section \<open>Facts about the steps\<close>

text \<open>The rest of the theory proves what the handlers do. These first lemmas say how the
  steps compose, which events each step can leave, and what a unit is once its presets are
  resolved.\<close>

lemma thenDo_Continue [simp]: "thenDo (Continue x, es) k = (fst (k x), es @ snd (k x))"
  by (simp add: thenDo_def split: prod.splits)

lemma thenDo_Return [simp]: "thenDo (Return, es) k = (Return, es)"
  by (simp add: thenDo_def)

lemma thenDo_Throw [simp]: "thenDo (Throw e, es) k = (Throw e, es)"
  by (simp add: thenDo_def)

lemma insertLink_filters [simp]:
  "filter is_write (insertLinkAtCursorPosition st h p c lf rs) = []"
  "filter is_transcode (insertLinkAtCursorPosition st h p c lf rs) = []"
  "filter is_notice (insertLinkAtCursorPosition st h p c lf rs) = []"
  "filter is_size_comparison (insertLinkAtCursorPosition st h p c lf rs) = []"
  "filter is_editor_call (insertLinkAtCursorPosition st h p c lf rs) =
     insertLinkAtCursorPosition st h p c lf rs"
  by (simp_all add: insertLinkAtCursorPosition_def Let_def)

lemma linkExisting_filters [simp]:
  "filter is_write (linkExisting st h c e lf rs) = []"
  "filter is_transcode (linkExisting st h c e lf rs) = []"
  "filter is_notice (linkExisting st h c e lf rs) = []"
  "filter is_size_comparison (linkExisting st h c e lf rs) = []"
  "filter is_editor_call (linkExisting st h c e lf rs) = linkExisting st h c e lf rs"
  by (simp_all add: linkExisting_def split: option.splits)

lemma step_determineDestination_cases:
  "(\<exists>dest nf. determineDestination h f a c fn fo = Inr (dest, nf) \<and>
      step_determineDestination h f a c fn fo = (Continue (dest, nf), [])) \<or>
   (\<exists>es. step_determineDestination h f a c fn fo = (Return, es) \<and>
      filter is_transcode es = [] \<and> filter is_write es = [] \<and> filter is_editor_call es = [])"
  by (cases "determineDestination h f a c fn fo") (auto simp: step_determineDestination_def)

lemma step_ensureFolderExists_cases:
  "step_ensureFolderExists hr h dest = (Continue (), [EnsureFolderCall dest]) \<or>
   (\<exists>r es. step_ensureFolderExists hr h dest = (r, es) \<and> r \<noteq> Continue () \<and>
      filter is_transcode es = [] \<and> filter is_write es = [] \<and> filter is_editor_call es = [])"
  by (auto simp: step_ensureFolderExists_def split: option.splits thrown.splits)

lemma step_conflicts_cases:
  "(\<exists>n e. step_conflicts h f fn dest nf = (Continue (n, e, False), [])) \<or>
   (\<exists>n e es. step_conflicts h f fn dest nf = (Continue (n, e, True), es) \<and>
      filter is_transcode es = [] \<and> filter is_write es = [] \<and> filter is_editor_call es = []) \<or>
   (\<exists>es. step_conflicts h f fn dest nf = (Return, es) \<and>
      filter is_transcode es = [] \<and> filter is_write es = [] \<and> filter is_editor_call es = [])"
  by (auto simp: step_conflicts_def Let_def split: sum.splits)

lemma step_saveOriginal_no_transcode [simp]:
  "filter is_transcode (snd (step_saveOriginal st h cursor f lf rs p)) = []"
  by (simp add: step_saveOriginal_def callCreateBinary_def split: sum.splits)

lemma unitSteps_transcode_shape:
  assumes "filter is_transcode (snd (unitSteps hr st h cursor a f (c, fn, fo, lf, rs))) \<noteq> []"
  shows "\<exists>dest nf. unitSteps hr st h cursor a f (c, fn, fo, lf, rs) =
           thenDo (Continue (), [EnsureFolderCall dest])
             (\<lambda>_. step_processImage st h cursor f c lf rs (combinePath h dest nf) nf)"
proof -
  from step_determineDestination_cases[of h f a c fn fo]
  obtain dest nf0 where d: "step_determineDestination h f a c fn fo = (Continue (dest, nf0), [])"
    using assms by (auto simp: unitSteps_def)
  from step_ensureFolderExists_cases[of hr h dest]
  have e: "step_ensureFolderExists hr h dest = (Continue (), [EnsureFolderCall dest])"
    using assms d by (auto simp: unitSteps_def thenDo_def split: completion.splits)
  from step_conflicts_cases[of h f fn dest nf0]
  consider (go) n ex where "step_conflicts h f fn dest nf0 = (Continue (n, ex, False), [])"
    | (skip) n ex es where "step_conflicts h f fn dest nf0 = (Continue (n, ex, True), es)"
        "filter is_transcode es = []"
    | (ret) es where "step_conflicts h f fn dest nf0 = (Return, es)" "filter is_transcode es = []"
    by blast
  then show ?thesis
  proof cases
    case go
    have u: "unitSteps hr st h cursor a f (c, fn, fo, lf, rs) =
        thenDo (Continue (), [EnsureFolderCall dest])
          (\<lambda>_. step_processReuseOrSkip st h cursor f c fn lf rs dest n ex False)"
      by (simp add: unitSteps_def d e go)
    show ?thesis
    proof (cases "reusesExisting ex fn")
      case True
      then show ?thesis using assms u by (simp add: step_processReuseOrSkip_def)
    next
      case False
      note nr = this
      show ?thesis
      proof (cases "skipsConversion h f c")
        case True
        then show ?thesis using assms u nr by (simp add: step_processReuseOrSkip_def)
      next
        case False
        then have "unitSteps hr st h cursor a f (c, fn, fo, lf, rs) =
          thenDo (Continue (), [EnsureFolderCall dest])
            (\<lambda>_. step_processImage st h cursor f c lf rs (combinePath h dest n) n)"
          using u nr by (simp add: step_processReuseOrSkip_def)
        then show ?thesis by blast
      qed
    qed
  next
    case skip
    then show ?thesis using assms
      by (simp add: unitSteps_def d e step_processReuseOrSkip_def)
  next
    case ret
    then show ?thesis using assms by (simp add: unitSteps_def d e)
  qed
qed


lemma catchUnexpected_simps [simp]:
  "catchUnexpected (Continue x, es) = (Fulfilled, es)"
  "catchUnexpected (Return, es) = (Fulfilled, es)"
  "catchUnexpected (Throw e, es) =
     (Fulfilled,
      es @ [ConsoleError ''An unexpected error occurred:'',
            Notice ''An unexpected error occurred. Check console for details.''])"
  by (simp_all add: catchUnexpected_def)

lemma catchUnexpected_fst [simp]: "fst (catchUnexpected m) = Fulfilled"
  by (cases m; cases "fst m") (auto simp: catchUnexpected_def split: completion.splits)

lemma catchUnexpected_filters:
  "filter is_write (snd (catchUnexpected m)) = filter is_write (snd m)"
  "filter is_transcode (snd (catchUnexpected m)) = filter is_transcode (snd m)"
  "filter is_size_comparison (snd (catchUnexpected m)) = filter is_size_comparison (snd m)"
  "filter is_editor_call (snd (catchUnexpected m)) = filter is_editor_call (snd m)"
  by (cases m; cases "fst m"; simp)+

lemma getPresetByName_logs: "set (snd (getPresetByName n xs t)) \<subseteq> range ConsoleWarn"
  by (auto simp: getPresetByName_def split: option.splits)

lemma resolvePresets_logs:
  assumes "resolvePresets st h f = (r, logs)"
  shows "set logs \<subseteq> range ConsoleWarn"
proof (cases "modalBehavior st = ''ask'' \<and> confirmDialog h f \<noteq> None")
  case True
  then show ?thesis using assms by (auto simp: resolvePresets_def)
next
  case False
  then have sm:
    "(if modalBehavior st = ''ask''
      then (case confirmDialog h f of Some e \<Rightarrow> Inl e | None \<Rightarrow> Inr True)
      else Inr (modalBehavior st = ''always'')) =
     Inr (modalBehavior st = ''ask'' \<or> modalBehavior st = ''always'')"
    by auto
  show ?thesis
  proof (cases "modalBehavior st = ''ask'' \<or> modalBehavior st = ''always''")
    case True
    then show ?thesis using assms unfolding resolvePresets_def sm
      by (auto split: sum.splits)
  next
    case False
    obtain c l1 where 1:
      "getPresetByName (selectedConversionPreset st) (conversionPresets st) ''Conversion'' = (c, l1)"
      by force
    obtain fn l2 where 2:
      "getPresetByName (selectedFilenamePreset st) (filenamePresets st) ''Filename'' = (fn, l2)"
      by force
    obtain fo l3 where 3:
      "getPresetByName (selectedFolderPreset st) (folderPresets st) ''Folder'' = (fo, l3)"
      by force
    obtain lf l4 where 4:
      "getPresetByName (selectedLinkFormatPreset (linkFormatSettings st))
         (linkFormatPresets (linkFormatSettings st)) ''Link Format'' = (lf, l4)"
      by force
    obtain rs l5 where 5:
      "getPresetByName (selectedResizePreset (nonDestructiveResizeSettings st))
         (resizePresets (nonDestructiveResizeSettings st)) ''Resize'' = (rs, l5)"
      by force
    have "logs = l1 @ l2 @ l3 @ l4 @ l5"
      using assms False unfolding resolvePresets_def sm by (simp add: 1 2 3 4 5)
    moreover have "set l1 \<subseteq> range ConsoleWarn"
      using getPresetByName_logs[of "selectedConversionPreset st" "conversionPresets st"
          "''Conversion''"] by (simp add: 1)
    moreover have "set l2 \<subseteq> range ConsoleWarn"
      using getPresetByName_logs[of "selectedFilenamePreset st" "filenamePresets st"
          "''Filename''"] by (simp add: 2)
    moreover have "set l3 \<subseteq> range ConsoleWarn"
      using getPresetByName_logs[of "selectedFolderPreset st" "folderPresets st" "''Folder''"]
      by (simp add: 3)
    moreover have "set l4 \<subseteq> range ConsoleWarn"
      using getPresetByName_logs[of "selectedLinkFormatPreset (linkFormatSettings st)"
          "linkFormatPresets (linkFormatSettings st)" "''Link Format''"] by (simp add: 4)
    moreover have "set l5 \<subseteq> range ConsoleWarn"
      using getPresetByName_logs[of "selectedResizePreset (nonDestructiveResizeSettings st)"
          "resizePresets (nonDestructiveResizeSettings st)" "''Resize''"] by (simp add: 5)
    ultimately show ?thesis by simp
  qed
qed

lemma warn_filters:
  assumes "set logs \<subseteq> range ConsoleWarn"
  shows "filter is_write logs = []" "filter is_transcode logs = []" "filter is_notice logs = []"
    "filter is_size_comparison logs = []" "filter is_editor_call logs = []"
  using assms by (auto simp: filter_empty_conv)

lemma resolvePresets_cases:
  "(\<exists>b logs. resolvePresets st h f = (Continue b, logs)) \<or>
   (\<exists>e. resolvePresets st h f = (Throw e, []))"
  unfolding resolvePresets_def
  by (cases "confirmDialog h f"; cases "presetSelectionModal h f")
     (auto split: prod.splits)

lemma dropUnit_resolved:
  assumes "resolvePresets st h f = (Continue b, logs)"
  shows "dropUnit st h cursor a f =
           (Fulfilled, logs @ snd (catchUnexpected (unitSteps Drop st h cursor a f b)))"
  using assms
  by (cases "unitSteps Drop st h cursor a f b"; cases "fst (unitSteps Drop st h cursor a f b)")
     (simp_all add: dropUnit_def)

lemma pasteUnit_resolved:
  assumes "resolvePresets st h f = (Continue b, logs)"
  shows "pasteUnit st h cursor a f =
           (Fulfilled, logs @ snd (catchUnexpected (unitSteps Paste st h cursor a f b)))"
  using assms by (simp add: pasteUnit_def split: prod.splits) (metis catchUnexpected_fst fst_conv)

lemma dropUnit_thrown:
  assumes "resolvePresets st h f = (Throw e, [])"
  shows "dropUnit st h cursor a f =
           (Fulfilled,
            [ConsoleError ''An unexpected error occurred:'',
             Notice ''An unexpected error occurred. Check console for details.''])"
  using assms by (simp add: dropUnit_def)

lemma pasteUnit_thrown:
  assumes "resolvePresets st h f = (Throw e, [])"
  shows "pasteUnit st h cursor a f = (Rejected e, [])"
  using assms by (simp add: pasteUnit_def)

lemma unit_cases:
  assumes "u = dropUnit st h cursor a f \<or> u = pasteUnit st h cursor a f"
  obtains (steps) hr b logs where "resolvePresets st h f = (Continue b, logs)"
      "u = (Fulfilled, logs @ snd (catchUnexpected (unitSteps hr st h cursor a f b)))"
      "set logs \<subseteq> range ConsoleWarn"
    | (thrown) "filter is_transcode (snd u) = []" "filter is_write (snd u) = []"
       "filter is_editor_call (snd u) = []"
proof -
  from resolvePresets_cases[of st h f] show ?thesis
  proof (elim disjE exE)
    fix b logs assume r: "resolvePresets st h f = (Continue b, logs)"
    from assms show ?thesis
    proof
      assume "u = dropUnit st h cursor a f"
      then show ?thesis using r dropUnit_resolved[OF r] resolvePresets_logs[OF r] steps by metis
    next
      assume "u = pasteUnit st h cursor a f"
      then show ?thesis using r pasteUnit_resolved[OF r] resolvePresets_logs[OF r] steps by metis
    qed
  next
    fix e assume r: "resolvePresets st h f = (Throw e, [])"
    from assms show ?thesis
      using dropUnit_thrown[OF r] pasteUnit_thrown[OF r] thrown by auto
  qed
qed


lemma unit_resolved:
  assumes "resolvePresets st h f = (Continue b, logs)"
    and "u = dropUnit st h cursor a f \<or> u = pasteUnit st h cursor a f"
  obtains hr where "u = (Fulfilled, logs @ snd (catchUnexpected (unitSteps hr st h cursor a f b)))"
  using assms dropUnit_resolved[OF assms(1)] pasteUnit_resolved[OF assms(1)] by blast

lemma folder_ok_step:
  assumes "ensureFolderExists h dest = None \<or>
           (\<exists>m. ensureFolderExists h dest = Some (Error m) \<and>
                startsWith m ''Folder already exists'')"
  shows "step_ensureFolderExists hr h dest = (Continue (), [EnsureFolderCall dest])"
  using assms by (auto simp: step_ensureFolderExists_def)

lemma unitSteps_reuse:
  assumes "conflictResolution p = ''reuse''"
    and "determineDestination h f a c (Some p) fo = Inr (dest, nf)"
    and "getAbstractFileByPath h (dest @ ''/'' @ nf) = Some existing"
    and "\<not> should_skip_rename h (name f) p"
    and "es = snd (catchUnexpected (unitSteps hr st h cursor a f (c, Some p, fo, lf, rs)))"
  shows "filter is_write es = []"
    and "filter is_transcode es = []"
    and "filter is_editor_call es = [] \<or>
         filter is_editor_call es = insertLinkAtCursorPosition st h (path existing) cursor lf rs"
    and "ensureFolderExists h dest = None \<or>
         (\<exists>m. ensureFolderExists h dest = Some (Error m) \<and>
              startsWith m ''Folder already exists'') \<Longrightarrow>
         es = EnsureFolderCall dest #
              insertLinkAtCursorPosition st h (path existing) cursor lf rs"
proof -
  have d: "step_determineDestination h f a c (Some p) fo = (Continue (dest, nf), [])"
    using assms by (simp add: step_determineDestination_def)
  have k: "step_conflicts h f (Some p) dest nf = (Continue (nf, Some existing, False), [])"
    using assms by (simp add: step_conflicts_def Let_def)
  have r: "step_processReuseOrSkip st h cursor f c (Some p) lf rs dest nf (Some existing) False =
      (Return, insertLinkAtCursorPosition st h (path existing) cursor lf rs)"
    using assms by (simp add: step_processReuseOrSkip_def reusesExisting_def linkExisting_def)
  have ok: "es = EnsureFolderCall dest #
              insertLinkAtCursorPosition st h (path existing) cursor lf rs"
    if "step_ensureFolderExists hr h dest = (Continue (), [EnsureFolderCall dest])"
    using that assms(5) by (simp add: unitSteps_def d k r)
  show "ensureFolderExists h dest = None \<or>
         (\<exists>m. ensureFolderExists h dest = Some (Error m) \<and>
              startsWith m ''Folder already exists'') \<Longrightarrow>
         es = EnsureFolderCall dest #
              insertLinkAtCursorPosition st h (path existing) cursor lf rs"
    using ok folder_ok_step by blast
  from step_ensureFolderExists_cases[of hr h dest]
  consider (go) "step_ensureFolderExists hr h dest = (Continue (), [EnsureFolderCall dest])"
    | (stop) r' es' where "step_ensureFolderExists hr h dest = (r', es')" "r' \<noteq> Continue ()"
      "filter is_transcode es' = []" "filter is_write es' = []" "filter is_editor_call es' = []"
    by blast
  then have "filter is_write es = [] \<and> filter is_transcode es = [] \<and>
    (filter is_editor_call es = [] \<or>
         filter is_editor_call es = insertLinkAtCursorPosition st h (path existing) cursor lf rs)"
  proof cases
    case go
    then show ?thesis using ok by simp
  next
    case stop
    have "unitSteps hr st h cursor a f (c, Some p, fo, lf, rs) = (r', es')"
      using stop(1,2) by (cases r') (simp_all add: unitSteps_def d)
    then show ?thesis using stop assms(5) by (simp add: catchUnexpected_filters)
  qed
  then show "filter is_write es = []" "filter is_transcode es = []"
    "filter is_editor_call es = [] \<or>
         filter is_editor_call es = insertLinkAtCursorPosition st h (path existing) cursor lf rs"
    by simp_all
qed

lemmas demo_defs =
  photo_def secret_def broken_def webp_def rawCopy_def plainName_def reuseName_def keepName_def
  attachments_def wikilink_def noResize_def today_def here_def demo_settings_def demo_host_def
  settings_keepName_def settings_rawCopy_def settings_reuse_def settings_back_def
  settings_always_def host_existing_def host_larger_def host_folder_exists_def
  host_folder_denied_def host_invalid_def host_modal_fails_def pasted_def

section \<open>The size formatter\<close>

lemma ends_bytes: "last (xs @ '' bytes'') = CHR ''s''" by simp
lemma ends_B: "last (xs @ [CHR '' '', u, CHR ''B'']) = CHR ''B''" by simp

lemma unit_KB_MB: "xs @ '' KB'' \<noteq> ys @ '' MB''"
proof
  assume "xs @ '' KB'' = ys @ '' MB''"
  then have "'' KB'' = '' MB''" by (simp only: append_eq_append_conv [OF disjI2] list.size)
  then show False by simp
qed

lemma div_bounds:
  fixes m d :: nat assumes "0 < d"
  shows "d * (m div d) \<le> m" and "m < d * (m div d) + d"
  using assms apply simp
  using assms dividend_less_times_div[of d m] by (simp add: ac_simps)

lemma toFixed1_eq: "toFixed1 a b = decimal (((20 * a + b) div (2 * b)) div 10) @ ''.'' @ decimal (((20 * a + b) div (2 * b)) mod 10)"
  by (simp add: toFixed1_def Let_def)

text \<open>
  Claim C10. For every byte count \<open>n\<close>, \<open>formatFileSize\<close> prints the plain count followed
  by \<open>bytes\<close> exactly when \<open>n < 1024\<close>; exactly when \<open>1024 \<le> n < 1048576\<close> it prints, followed
  by \<open>KB\<close>, the number of tenths \<open>q\<close> nearest to \<open>n / 1024\<close> (a tie goes up:
  \<open>q / 10 - 1 / 20 \<le> n / 1024 < q / 10 + 1 / 20\<close>, here multiplied out) with a point before its
  last digit; and otherwise it prints in the same way, followed by \<open>MB\<close>, the tenths nearest
  to \<open>n / 1048576\<close>. The byte count is a file size: an integer that a double holds exactly.
\<close>

theorem formatFileSize_boundaries:
  "(n < 1024 \<longleftrightarrow> formatFileSize n = decimal n @ '' bytes'') \<and>
   (1024 \<le> n \<and> n < 1048576 \<longleftrightarrow>
      (\<exists>q. formatFileSize n = decimal (q div 10) @ ''.'' @ decimal (q mod 10) @ '' KB'' \<and>
           1024 * q \<le> 10 * n + 512 \<and> 10 * n < 1024 * q + 512)) \<and>
   (1048576 \<le> n \<longleftrightarrow>
      (\<exists>q. formatFileSize n = decimal (q div 10) @ ''.'' @ decimal (q mod 10) @ '' MB'' \<and>
           1048576 * q \<le> 10 * n + 524288 \<and> 10 * n < 1048576 * q + 524288))"
proof -
  consider (b) "n < 1024" | (k) "1024 \<le> n" "n < 1048576" | (m) "1048576 \<le> n" by linarith
  then show ?thesis
  proof cases
    case b
    have f: "formatFileSize n = decimal n @ '' bytes''" using b by (simp add: formatFileSize_def)
    have "\<And>xs u. formatFileSize n \<noteq> xs @ [CHR '' '', u, CHR ''B'']"
    proof
      fix xs u assume "formatFileSize n = xs @ [CHR '' '', u, CHR ''B'']"
      then have "last (decimal n @ '' bytes'') = last (xs @ [CHR '' '', u, CHR ''B''])" using f by simp
      then show False by simp
    qed
    then have "\<And>x y u. formatFileSize n \<noteq> x @ ''.'' @ y @ [CHR '' '', u, CHR ''B'']"
      by (metis append.assoc)
    then show ?thesis using b f by auto
  next
    case k
    define q where "q = (20 * n + 1024) div 2048"
    have f: "formatFileSize n = decimal (q div 10) @ ''.'' @ decimal (q mod 10) @ '' KB''"
      using k by (simp add: formatFileSize_def toFixed1_eq q_def)
    have r: "1024 * q \<le> 10 * n + 512 \<and> 10 * n < 1024 * q + 512"
      using div_bounds[of 2048 "20 * n + 1024"] by (simp add: q_def)
    have nb: "formatFileSize n \<noteq> decimal n @ '' bytes''"
    proof
      assume "formatFileSize n = decimal n @ '' bytes''"
      then have "last (decimal n @ '' bytes'') = last ((decimal (q div 10) @ ''.'' @ decimal (q mod 10)) @ '' KB'')"
        using f by simp
      then show False by (simp only: ends_bytes ends_B) simp
    qed
    have nm: "\<And>x y. formatFileSize n \<noteq> x @ ''.'' @ y @ '' MB''"
      using unit_KB_MB[of "decimal (q div 10) @ ''.'' @ decimal (q mod 10)"] f by (metis append.assoc)
    show ?thesis using k f r nb nm by auto
  next
    case m
    define q where "q = (20 * n + 1048576) div 2097152"
    have f: "formatFileSize n = decimal (q div 10) @ ''.'' @ decimal (q mod 10) @ '' MB''"
      using m by (simp add: formatFileSize_def toFixed1_eq q_def)
    have r: "1048576 * q \<le> 10 * n + 524288 \<and> 10 * n < 1048576 * q + 524288"
      using div_bounds[of 2097152 "20 * n + 1048576"] by (simp add: q_def)
    have nb: "formatFileSize n \<noteq> decimal n @ '' bytes''"
    proof
      assume "formatFileSize n = decimal n @ '' bytes''"
      then have "last (decimal n @ '' bytes'') = last ((decimal (q div 10) @ ''.'' @ decimal (q mod 10)) @ '' MB'')"
        using f by simp
      then show False by (simp only: ends_bytes ends_B) simp
    qed
    have nm: "\<And>x y. formatFileSize n \<noteq> x @ ''.'' @ y @ '' KB''"
      using unit_KB_MB[of _ "decimal (q div 10) @ ''.'' @ decimal (q mod 10)"] f by (metis append.assoc)
    show ?thesis using m f r nb nm by auto
  qed
qed

theorem formatFileSize_boundaries_witness:
  "formatFileSize 1023 = ''1023 bytes'' \<and> formatFileSize 1024 \<noteq> decimal 1024 @ '' bytes'' \<and>
   formatFileSize 1536 = ''1.5 KB'' \<and> formatFileSize 1048576 = ''1.0 MB''"
proof -
  have "formatFileSize 1023 = ''1023 bytes''" "formatFileSize 1536 = ''1.5 KB''"
    "formatFileSize 1048576 = ''1.0 MB''"
    by (simp_all add: formatFileSize_def toFixed1_def decimal.simps)
  then show ?thesis using formatFileSize_boundaries[of 1024] by simp
qed

section \<open>Preset resolution\<close>

text \<open>
  Claim C6. For a non-empty preset collection: when no element has the name,
  \<open>getPresetByName\<close> logs one warning and returns the first element; when some element has
  the name, it returns the first such element and logs nothing; in every case it returns an
  element, never \<open>undefined\<close>. The function has no throwing outcome at all: on a list it only
  searches and indexes.
\<close>

theorem getPresetByName_fallback:
  assumes "presetArray \<noteq> []"
  shows \<open>((\<forall>p \<in> set presetArray. name p \<noteq> presetName) \<longrightarrow>
            getPresetByName presetName presetArray presetType =
              (Some (hd presetArray),
               [ConsoleWarn (presetType @ '' preset "'' @ presetName @
                             ''" not found, using default'')])) \<and>
         (\<forall>i < length presetArray.
            name (presetArray ! i) = presetName \<and>
            (\<forall>j < i. name (presetArray ! j) \<noteq> presetName) \<longrightarrow>
            getPresetByName presetName presetArray presetType = (Some (presetArray ! i), [])) \<and>
         fst (getPresetByName presetName presetArray presetType) \<noteq> None\<close>
proof (intro conjI impI allI)
  assume a: "\<forall>p \<in> set presetArray. name p \<noteq> presetName"
  then have "find (\<lambda>p. name p = presetName) presetArray = None"
    by (simp add: find_None_iff)
  then show \<open>getPresetByName presetName presetArray presetType =
              (Some (hd presetArray),
               [ConsoleWarn (presetType @ '' preset "'' @ presetName @
                             ''" not found, using default'')])\<close>
    using assms by (cases presetArray) (simp_all add: getPresetByName_def)
next
  fix i
  assume "i < length presetArray"
    and "name (presetArray ! i) = presetName \<and> (\<forall>j < i. name (presetArray ! j) \<noteq> presetName)"
  then have "find (\<lambda>p. name p = presetName) presetArray = Some (presetArray ! i)"
    by (auto simp: find_Some_iff)
  then show "getPresetByName presetName presetArray presetType = (Some (presetArray ! i), [])"
    by (simp add: getPresetByName_def)
next
  show "fst (getPresetByName presetName presetArray presetType) \<noteq> None"
    using assms
    by (cases presetArray; cases "find (\<lambda>p. name p = presetName) presetArray")
       (simp_all add: getPresetByName_def)
qed

theorem getPresetByName_fallback_witness:
  \<open>getPresetByName ''missing'' [plainName, reuseName, keepName] ''Filename'' =
     (Some plainName, [ConsoleWarn ''Filename preset "missing" not found, using default'']) \<and>
   getPresetByName ''reuse'' [plainName, reuseName, keepName] ''Filename'' = (Some reuseName, [])\<close>
proof -
  have n: "[plainName, reuseName, keepName] \<noteq> []" by simp
  have a: "\<forall>p \<in> set [plainName, reuseName, keepName]. name p \<noteq> ''missing''"
    by (simp add: plainName_def reuseName_def keepName_def)
  have b: "(1::nat) < length [plainName, reuseName, keepName] \<and>
     name ([plainName, reuseName, keepName] ! 1) = ''reuse'' \<and>
     (\<forall>j < (1::nat). name ([plainName, reuseName, keepName] ! j) \<noteq> ''reuse'')"
    by (simp add: plainName_def reuseName_def keepName_def)
  have r1: \<open>getPresetByName ''missing'' [plainName, reuseName, keepName] ''Filename'' =
     (Some (hd [plainName, reuseName, keepName]),
      [ConsoleWarn (''Filename'' @ '' preset "'' @ ''missing'' @ ''" not found, using default'')])\<close>
    using getPresetByName_fallback[OF n, of "''missing''" "''Filename''", THEN conjunct1] a
    by blast
  have r2: "getPresetByName ''reuse'' [plainName, reuseName, keepName] ''Filename'' =
     (Some ([plainName, reuseName, keepName] ! 1), [])"
    using getPresetByName_fallback[OF n, of "''reuse''" "''Filename''", THEN conjunct2,
        THEN conjunct1, rule_format, of 1] b
    by blast
  from r1 r2 show ?thesis by simp
qed

section \<open>Link insertion\<close>

text \<open>
  Claim C7. \<open>insertLinkAtCursorPosition\<close> inserts the formatted link at the captured
  position. Unless \<open>cursorLocation\<close> is \<open>back\<close> (so when it is \<open>front\<close>) this is its only
  editor call, \<open>setCursor\<close> is not called, and the cursor is where it was before, so a cursor
  that stood at the captured position stays there. When \<open>cursorLocation\<close> is \<open>back\<close> it then calls \<open>setCursor\<close> once, with the
  captured line and the captured column advanced by exactly the length of the formatted
  link.
\<close>

theorem cursor_placement:
  "(cursorLocation st \<noteq> ''back'' \<longrightarrow>
      insertLinkAtCursorPosition st h linkPath cursor lf rs =
        [ReplaceRange (formattedLinkFor st h linkPath lf rs) cursor] \<and>
      filter is_editor_call (insertLinkAtCursorPosition st h linkPath cursor lf rs) =
        [ReplaceRange (formattedLinkFor st h linkPath lf rs) cursor] \<and>
      cursor_after c0 (insertLinkAtCursorPosition st h linkPath cursor lf rs) = c0 \<and>
      cursor_after cursor (insertLinkAtCursorPosition st h linkPath cursor lf rs) = cursor) \<and>
   (cursorLocation st = ''back'' \<longrightarrow>
      insertLinkAtCursorPosition st h linkPath cursor lf rs =
        [ReplaceRange (formattedLinkFor st h linkPath lf rs) cursor,
         SetCursor \<lparr>line = line cursor,
                    ch = ch cursor + length (formattedLinkFor st h linkPath lf rs)\<rparr>] \<and>
      cursor_after c0 (insertLinkAtCursorPosition st h linkPath cursor lf rs) =
        \<lparr>line = line cursor, ch = ch cursor + length (formattedLinkFor st h linkPath lf rs)\<rparr>)"
  by (simp add: insertLinkAtCursorPosition_def Let_def)

theorem cursor_placement_witness:
  "insertLinkAtCursorPosition demo_settings demo_host ''attachments/photo.png'' here None None =
     [ReplaceRange ''![[attachments/photo.png]]'' \<lparr>line = 2, ch = 5\<rparr>] \<and>
   cursor_after here
     (insertLinkAtCursorPosition demo_settings demo_host ''attachments/photo.png'' here None None) =
     \<lparr>line = 2, ch = 5\<rparr> \<and>
   insertLinkAtCursorPosition settings_back demo_host ''attachments/photo.png'' here None None =
     [ReplaceRange ''![[attachments/photo.png]]'' \<lparr>line = 2, ch = 5\<rparr>,
      SetCursor \<lparr>line = 2, ch = 31\<rparr>] \<and>
   cursor_after here
     (insertLinkAtCursorPosition settings_back demo_host ''attachments/photo.png'' here None None) =
     \<lparr>line = 2, ch = 31\<rparr>"
proof -
  have f: "cursorLocation demo_settings \<noteq> ''back''" by (simp add: demo_settings_def)
  have b: "cursorLocation settings_back = ''back''" by (simp add: settings_back_def demo_settings_def)
  have l: "formattedLinkFor demo_settings demo_host ''attachments/photo.png'' None None =
      ''![[attachments/photo.png]]''"
     "formattedLinkFor settings_back demo_host ''attachments/photo.png'' None None =
      ''![[attachments/photo.png]]''"
    by (simp_all add: formattedLinkFor_def Let_def demo_host_def)
  from cursor_placement[of demo_settings demo_host "''attachments/photo.png''" here None None
         here]
       cursor_placement[of settings_back demo_host "''attachments/photo.png''" here None None
         here]
  show ?thesis using f b l by (simp add: here_def)
qed

section \<open>The reuse short-circuit\<close>

text \<open>
  Claim C5. Take a unit, dropped or pasted, whose filename preset has the conflict
  resolution \<open>reuse\<close> and whose name matches no skip-rename pattern, and let an entry exist at
  the destination computed for it. Then the unit settles without rejecting, never calls
  \<open>createBinary\<close>, never calls the image processor, and the only editor calls it can make
  are those of inserting the link to the existing entry's path. When the destination folder
  is there (its creation succeeds or fails with "Folder already exists"), the unit does
  exactly this after its preset warnings: the folder call, then the insertion of that
  link.
\<close>

theorem reuse_short_circuit:
  assumes "resolvePresets st h f = (Continue (c, Some p, fo, lf, rs), logs)"
    and "conflictResolution p = ''reuse''"
    and "determineDestination h f a c (Some p) fo = Inr (dest, nf)"
    and "getAbstractFileByPath h (dest @ ''/'' @ nf) = Some existing"
    and "\<not> should_skip_rename h (name f) p"
    and "u = dropUnit st h cursor a f \<or> u = pasteUnit st h cursor a f"
  shows "fst u = Fulfilled \<and>
         filter is_write (snd u) = [] \<and>
         filter is_transcode (snd u) = [] \<and>
         (filter is_editor_call (snd u) = [] \<or>
          filter is_editor_call (snd u) =
            insertLinkAtCursorPosition st h (path existing) cursor lf rs) \<and>
         (ensureFolderExists h dest = None \<or>
          (\<exists>m. ensureFolderExists h dest = Some (Error m) \<and>
               startsWith m ''Folder already exists'') \<longrightarrow>
          snd u = logs @ EnsureFolderCall dest #
                  insertLinkAtCursorPosition st h (path existing) cursor lf rs)"
proof -
  note w = warn_filters[OF resolvePresets_logs[OF assms(1)]]
  from unit_resolved[OF assms(1) assms(6)] obtain hr where
    u: "u = (Fulfilled,
             logs @ snd (catchUnexpected (unitSteps hr st h cursor a f (c, Some p, fo, lf, rs))))"
    by blast
  define es where "es = snd (catchUnexpected (unitSteps hr st h cursor a f (c, Some p, fo, lf, rs)))"
  note r = unitSteps_reuse[OF assms(2-5) es_def]
  have s: "snd u = logs @ es" "fst u = Fulfilled" using u es_def by simp_all
  show ?thesis unfolding s using r w by auto
qed

lemma resolve_reuse:
  "resolvePresets settings_reuse host_existing photo =
     (Continue (Some webp, Some reuseName, Some attachments, Some wikilink, Some noResize), [])"
  by code_simp

theorem reuse_short_circuit_witness:
  "fst (dropUnit settings_reuse host_existing here today photo) = Fulfilled \<and>
   filter is_write (snd (dropUnit settings_reuse host_existing here today photo)) = [] \<and>
   filter is_transcode (snd (dropUnit settings_reuse host_existing here today photo)) = [] \<and>
   snd (dropUnit settings_reuse host_existing here today photo) =
     [EnsureFolderCall ''attachments'', ReplaceRange ''![[attachments/photo.png]]'' here]"
proof -
  have 1: "conflictResolution reuseName = ''reuse''" by (simp add: reuseName_def)
  have 2: "determineDestination host_existing photo today (Some webp) (Some reuseName)
             (Some attachments) = Inr (''attachments'', ''photo.png'')"
    by (simp add: host_existing_def demo_host_def photo_def)
  have 3: "getAbstractFileByPath host_existing (''attachments'' @ ''/'' @ ''photo.png'') =
             Some \<lparr>path = ''attachments/photo.png''\<rparr>"
    by (simp add: host_existing_def demo_host_def)
  have 4: "\<not> should_skip_rename host_existing (name photo) reuseName"
    by (simp add: host_existing_def demo_host_def reuseName_def)
  have 5: "ensureFolderExists host_existing ''attachments'' = None"
    by (simp add: host_existing_def demo_host_def)
  have 6: "insertLinkAtCursorPosition settings_reuse host_existing
             (path \<lparr>path = ''attachments/photo.png''\<rparr>) here (Some wikilink) (Some noResize) =
           [ReplaceRange ''![[attachments/photo.png]]'' here]"
    by (simp add: insertLinkAtCursorPosition_def formattedLinkFor_def Let_def or_else_def
        settings_reuse_def demo_settings_def host_existing_def demo_host_def wikilink_def)
  from reuse_short_circuit[OF resolve_reuse 1 2 3 4,
      where u = "dropUnit settings_reuse host_existing here today photo" and cursor = here]
  show ?thesis using 5 6 by simp
qed

section \<open>The units of an event\<close>

lemma handleDrop_units:
  assumes "getActiveFile h = Some a"
  shows "snd (snd (handleDrop st h fileData cursor)) =
           map (dropUnit st h cursor a) (filter (\<lambda>d. isSupported h (ftype d) (name d)) fileData)"
  using assms by (simp add: handleDrop_def Let_def)

lemma handlePaste_units:
  assumes "getActiveFile h = Some a"
  shows "snd (snd (handlePaste st h itemData cursor)) =
           map (pasteUnit st h cursor a) (pastedFiles h itemData)"
  using assms by (simp add: handlePaste_def Let_def)

lemma pastedFiles_append: "pastedFiles h (xs @ ys) = pastedFiles h xs @ pastedFiles h ys"
  by (simp add: pastedFiles_def)

lemma pastedFiles_item:
  assumes "item_file d = Some f" "kind d = ''file''" "isSupported h (item_type d) (name f)"
  shows "pastedFiles h [d] = [f]"
  using assms by (simp add: pastedFiles_def)

lemma drop_siblings:
  assumes "isSupported h (ftype f) (name f)" and "getActiveFile h = Some a"
  shows "snd (snd (handleDrop st h (before @ f # after) cursor)) =
           snd (snd (handleDrop st h before cursor)) @ dropUnit st h cursor a f #
           snd (snd (handleDrop st h after cursor))"
  using assms by (simp add: handleDrop_units)

lemma paste_siblings:
  assumes "item_file d = Some f" "kind d = ''file''" "isSupported h (item_type d) (name f)"
    and "getActiveFile h = Some a"
  shows "snd (snd (handlePaste st h (before @ d # after) cursor)) =
           snd (snd (handlePaste st h before cursor)) @ pasteUnit st h cursor a f #
           snd (snd (handlePaste st h after cursor))"
proof -
  have "pastedFiles h (before @ d # after) = pastedFiles h before @ f # pastedFiles h after"
    using pastedFiles_append[of h before "[d] @ after"] pastedFiles_append[of h "[d]" after]
      pastedFiles_item[OF assms(1-3)] by simp
  then show ?thesis using assms(4) by (simp add: handlePaste_units)
qed

lemma promiseAll_Fulfilled: "(\<forall>r \<in> set rs. r = Fulfilled) \<Longrightarrow> promiseAll rs = Fulfilled"
  by (induction rs) auto

lemma dropUnit_Fulfilled: "fst (dropUnit st h cursor a f) = Fulfilled"
  by (simp add: dropUnit_def)

lemma handleDrop_never_rejects: "fst (handleDrop st h fileData cursor) = Fulfilled"
  by (auto simp: handleDrop_def Let_def dropUnit_Fulfilled split: option.splits
      intro!: promiseAll_Fulfilled)

section \<open>Folder creation\<close>

lemma folder_update_steps:
  "resolvePresets st (h\<lparr>ensureFolderExists := g\<rparr>) f = resolvePresets st h f"
  "step_determineDestination (h\<lparr>ensureFolderExists := g\<rparr>) f a c fn fo =
     step_determineDestination h f a c fn fo"
  "step_conflicts (h\<lparr>ensureFolderExists := g\<rparr>) f fn dest nf = step_conflicts h f fn dest nf"
  "step_processReuseOrSkip st (h\<lparr>ensureFolderExists := g\<rparr>) cursor f c fn lf rs dest n ex sk =
     step_processReuseOrSkip st h cursor f c fn lf rs dest n ex sk"
  by (simp_all add: resolvePresets_def step_determineDestination_def step_conflicts_def
      step_processReuseOrSkip_def step_saveOriginal_def step_processImage_def
      callProcessImage_def callCreateBinary_def linkExisting_def skipsConversion_def
      insertLinkAtCursorPosition_def formattedLinkFor_def
      cong: if_cong option.case_cong sum.case_cong prod.case_cong)

lemma unitSteps_folder_exists:
  assumes "determineDestination h f a c fn fo = Inr (dest, nf)"
    and "ensureFolderExists h dest = Some (Error m)"
    and "startsWith m ''Folder already exists''"
  shows "unitSteps hr st h cursor a f (c, fn, fo, lf, rs) =
         unitSteps hr st (h\<lparr>ensureFolderExists := (ensureFolderExists h)(dest := None)\<rparr>) cursor a f
           (c, fn, fo, lf, rs)"
proof -
  have d: "step_determineDestination h f a c fn fo = (Continue (dest, nf), [])"
    using assms(1) by (simp add: step_determineDestination_def)
  have e: "step_ensureFolderExists hr h dest = (Continue (), [EnsureFolderCall dest])"
    using assms(2,3) by (simp add: step_ensureFolderExists_def)
  have e': "step_ensureFolderExists hr
              (h\<lparr>ensureFolderExists := (ensureFolderExists h)(dest := None)\<rparr>) dest =
            (Continue (), [EnsureFolderCall dest])"
    by (simp add: step_ensureFolderExists_def)
  show ?thesis
    by (simp add: unitSteps_def folder_update_steps d e e')
qed

lemma unitSteps_folder_fails:
  assumes "determineDestination h f a c fn fo = Inr (dest, nf)"
    and "ensureFolderExists h dest = Some (Error m)"
    and "\<not> startsWith m ''Folder already exists''"
  shows "unitSteps hr st h cursor a f (c, fn, fo, lf, rs) =
         (Return, [EnsureFolderCall dest, ConsoleError ''Error creating folder:'',
                   Notice (folderFailedNotice hr dest)])"
  using assms
  by (simp add: unitSteps_def step_determineDestination_def step_ensureFolderExists_def)

lemma unitSteps_folder_throws_other:
  assumes "determineDestination h f a c fn fo = Inr (dest, nf)"
    and "ensureFolderExists h dest = Some NonError"
  shows "unitSteps hr st h cursor a f (c, fn, fo, lf, rs) =
         (Throw (Error typeErrorMessage), [EnsureFolderCall dest])"
  using assms
  by (simp add: unitSteps_def step_determineDestination_def step_ensureFolderExists_def)

text \<open>
  Claim C8. Take a unit, dropped or pasted, whose destination is computed and whose call of
  \<open>ensureFolderExists\<close> throws. When the thrown error's message begins with "Folder already
  exists", the unit does exactly what it does when the folder creation succeeds: the failure
  is treated as success and the pipeline goes on. When the message begins otherwise, the
  unit ends there, settled and not rejected, after a console entry and one notice that the
  folder could not be created; nothing is transcoded, written or linked. A thrown value
  that has no message at all ends the unit as well, through the outermost \<open>catch\<close> and its
  notice. In an event that holds the file among others, the units of the other files are
  what they are without it.
\<close>

theorem folder_error_policy:
  assumes "resolvePresets st h f = (Continue (c, fn, fo, lf, rs), logs)"
    and "determineDestination h f a c fn fo = Inr (dest, nf)"
    and "ensureFolderExists h dest = Some error"
  shows \<open>(\<forall>m. error = Error m \<and> startsWith m ''Folder already exists'' \<longrightarrow>
            dropUnit st h cursor a f =
              dropUnit st (h\<lparr>ensureFolderExists := (ensureFolderExists h)(dest := None)\<rparr>)
                cursor a f \<and>
            pasteUnit st h cursor a f =
              pasteUnit st (h\<lparr>ensureFolderExists := (ensureFolderExists h)(dest := None)\<rparr>)
                cursor a f) \<and>
         (\<forall>m. error = Error m \<and> \<not> startsWith m ''Folder already exists'' \<longrightarrow>
            dropUnit st h cursor a f =
              (Fulfilled,
               logs @ [EnsureFolderCall dest, ConsoleError ''Error creating folder:'',
                       Notice (''Failed to create folder "'' @ dest @
                               ''". Check console for details.'')]) \<and>
            pasteUnit st h cursor a f =
              (Fulfilled,
               logs @ [EnsureFolderCall dest, ConsoleError ''Error creating folder:'',
                       Notice (''Failed to create folder: '' @ dest)])) \<and>
         (error = NonError \<longrightarrow>
            dropUnit st h cursor a f =
              (Fulfilled,
               logs @ [EnsureFolderCall dest, ConsoleError ''An unexpected error occurred:'',
                       Notice ''An unexpected error occurred. Check console for details.'']) \<and>
            pasteUnit st h cursor a f =
              (Fulfilled,
               logs @ [EnsureFolderCall dest, ConsoleError ''An unexpected error occurred:'',
                       Notice ''An unexpected error occurred. Check console for details.''])) \<and>
         (isSupported h (ftype f) (name f) \<and> getActiveFile h = Some a \<longrightarrow>
            snd (snd (handleDrop st h (before @ f # after) cursor)) =
              snd (snd (handleDrop st h before cursor)) @ dropUnit st h cursor a f #
              snd (snd (handleDrop st h after cursor))) \<and>
         (item_file d = Some f \<and> kind d = ''file'' \<and> isSupported h (item_type d) (name f) \<and>
          getActiveFile h = Some a \<longrightarrow>
            snd (snd (handlePaste st h (items @ d # others) cursor)) =
              snd (snd (handlePaste st h items cursor)) @ pasteUnit st h cursor a f #
              snd (snd (handlePaste st h others cursor)))\<close>
proof (intro conjI impI allI)
  let ?h = "h\<lparr>ensureFolderExists := (ensureFolderExists h)(dest := None)\<rparr>"
  have r: "resolvePresets st ?h f = (Continue (c, fn, fo, lf, rs), logs)"
    using assms(1) by (simp add: folder_update_steps)
  {
    fix m assume s: "error = Error m \<and> startsWith m ''Folder already exists''"
    then have e: "ensureFolderExists h dest = Some (Error m)"
      and sw: "startsWith m ''Folder already exists''"
      using assms(3) by simp_all
    show "dropUnit st h cursor a f = dropUnit st ?h cursor a f"
      using unitSteps_folder_exists[OF assms(2) e sw, of Drop st cursor lf rs]
      by (simp add: dropUnit_resolved[OF assms(1)] dropUnit_resolved[OF r])
    show "pasteUnit st h cursor a f = pasteUnit st ?h cursor a f"
      using unitSteps_folder_exists[OF assms(2) e sw, of Paste st cursor lf rs]
      by (simp add: pasteUnit_resolved[OF assms(1)] pasteUnit_resolved[OF r])
  }
  {
    fix m assume s: "error = Error m \<and> \<not> startsWith m ''Folder already exists''"
    then have e: "ensureFolderExists h dest = Some (Error m)"
      and sw: "\<not> startsWith m ''Folder already exists''"
      using assms(3) by simp_all
    show \<open>dropUnit st h cursor a f =
              (Fulfilled,
               logs @ [EnsureFolderCall dest, ConsoleError ''Error creating folder:'',
                       Notice (''Failed to create folder "'' @ dest @
                               ''". Check console for details.'')])\<close>
      using unitSteps_folder_fails[OF assms(2) e sw, of Drop st cursor lf rs]
      by (simp add: dropUnit_resolved[OF assms(1)] folderFailedNotice_def)
    show "pasteUnit st h cursor a f =
              (Fulfilled,
               logs @ [EnsureFolderCall dest, ConsoleError ''Error creating folder:'',
                       Notice (''Failed to create folder: '' @ dest)])"
      using unitSteps_folder_fails[OF assms(2) e sw, of Paste st cursor lf rs]
      by (simp add: pasteUnit_resolved[OF assms(1)] folderFailedNotice_def)
  }
  {
    assume "error = NonError"
    then have e: "ensureFolderExists h dest = Some NonError" using assms(3) by simp
    show "dropUnit st h cursor a f =
              (Fulfilled,
               logs @ [EnsureFolderCall dest, ConsoleError ''An unexpected error occurred:'',
                       Notice ''An unexpected error occurred. Check console for details.''])"
      using unitSteps_folder_throws_other[OF assms(2) e, of Drop st cursor lf rs]
      by (simp add: dropUnit_resolved[OF assms(1)])
    show "pasteUnit st h cursor a f =
              (Fulfilled,
               logs @ [EnsureFolderCall dest, ConsoleError ''An unexpected error occurred:'',
                       Notice ''An unexpected error occurred. Check console for details.''])"
      using unitSteps_folder_throws_other[OF assms(2) e, of Paste st cursor lf rs]
      by (simp add: pasteUnit_resolved[OF assms(1)])
  }
  {
    assume "isSupported h (ftype f) (name f) \<and> getActiveFile h = Some a"
    then show "snd (snd (handleDrop st h (before @ f # after) cursor)) =
              snd (snd (handleDrop st h before cursor)) @ dropUnit st h cursor a f #
              snd (snd (handleDrop st h after cursor))"
      using drop_siblings by blast
  }
  {
    assume "item_file d = Some f \<and> kind d = ''file'' \<and> isSupported h (item_type d) (name f) \<and>
          getActiveFile h = Some a"
    then show "snd (snd (handlePaste st h (items @ d # others) cursor)) =
              snd (snd (handlePaste st h items cursor)) @ pasteUnit st h cursor a f #
              snd (snd (handlePaste st h others cursor))"
      using paste_siblings by blast
  }
qed

text \<open>The definitions that a run of a unit on concrete inputs unfolds.\<close>

lemmas model_defs =
  dropUnit_def pasteUnit_def unitSteps_def resolvePresets_def getPresetByName_def
  step_determineDestination_def step_ensureFolderExists_def step_conflicts_def
  step_processReuseOrSkip_def step_saveOriginal_def step_processImage_def tryCatch_def
  callProcessImage_def callCreateBinary_def catchProcessing_def processingFailedNotice_def
  processImageArgs_def reusesExisting_def skipsConversion_def linkExisting_def
  insertLinkAtCursorPosition_def formattedLinkFor_def or_else_def
  showSizeComparisonNotification_def formatFileSize_def toFixed1_def decimal.simps size_of_def
  folderFailedNotice_def startsWith_def

lemma run_plain:
  "dropUnit demo_settings demo_host here today photo =
     (Fulfilled,
      [EnsureFolderCall ''attachments'',
       ProcessImageCall photo (''WEBP'', 4 / 5, 1, ''None'', 0, 0, 0, ''Auto'', False),
       SizeComparison ''3 bytes'' ''1 bytes'' [] (- 2) 3,
       CreateBinaryCall ''attachments/photo.png'' [1],
       ReplaceRange ''![[attachments/photo.png]]'' here])"
  by (simp add: model_defs demo_defs)


lemma resolve_plain:
  "resolvePresets demo_settings h photo =
     (Continue (Some webp, Some plainName, Some attachments, Some wikilink, Some noResize), [])"
  by (simp add: resolvePresets_def getPresetByName_def demo_defs)

theorem folder_error_policy_witness:
  \<open>dropUnit demo_settings host_folder_exists here today photo =
     dropUnit demo_settings
       (host_folder_exists\<lparr>ensureFolderExists :=
          (ensureFolderExists host_folder_exists)(''attachments'' := None)\<rparr>) here today photo \<and>
   filter is_write (snd (dropUnit demo_settings host_folder_exists here today photo)) =
     [CreateBinaryCall ''attachments/photo.png'' [1]] \<and>
   dropUnit demo_settings host_folder_denied here today photo =
     (Fulfilled,
      [EnsureFolderCall ''attachments'', ConsoleError ''Error creating folder:'',
       Notice ''Failed to create folder "attachments". Check console for details.'']) \<and>
   pasteUnit demo_settings host_folder_denied here today photo =
     (Fulfilled,
      [EnsureFolderCall ''attachments'', ConsoleError ''Error creating folder:'',
       Notice ''Failed to create folder: attachments''])\<close>
proof -
  have d1: "determineDestination host_folder_exists photo today (Some webp) (Some plainName)
              (Some attachments) = Inr (''attachments'', ''photo.png'')"
    and d2: "determineDestination host_folder_denied photo today (Some webp) (Some plainName)
              (Some attachments) = Inr (''attachments'', ''photo.png'')"
    by (simp_all add: demo_defs)
  have e1: "ensureFolderExists host_folder_exists ''attachments'' =
              Some (Error ''Folder already exists.'')"
    and e2: "ensureFolderExists host_folder_denied ''attachments'' =
              Some (Error ''Permission denied'')"
    by (simp_all add: demo_defs)
  have s1: "startsWith ''Folder already exists.'' ''Folder already exists''"
    and s2: "\<not> startsWith ''Permission denied'' ''Folder already exists''"
    by (simp_all add: startsWith_def)
  have w: "filter is_write (snd (dropUnit demo_settings host_folder_exists here today photo)) =
     [CreateBinaryCall ''attachments/photo.png'' [1]]"
    by (simp add: model_defs demo_defs)
  from folder_error_policy[OF resolve_plain d1 e1, where cursor = here]
       folder_error_policy[OF resolve_plain d2 e2, where cursor = here] s1 s2 w
  show ?thesis by simp
qed

section \<open>Transcoding\<close>

lemma showSize_filters [simp]:
  "filter is_write (showSizeComparisonNotification st a b) = []"
  "filter is_transcode (showSizeComparisonNotification st a b) = []"
  "filter is_editor_call (showSizeComparisonNotification st a b) = []"
  "filter is_size_comparison (showSizeComparisonNotification st a b) =
     showSizeComparisonNotification st a b"
  by (simp_all add: showSizeComparisonNotification_def)

lemma step_processImage_throws:
  assumes "processImage h f (processImageArgs st c) = Inl error"
  shows "step_processImage st h cursor f c lf rs p n =
           (Return,
            [ProcessImageCall f (processImageArgs st c),
             ConsoleError ''Image processing failed:'',
             Notice (processingFailedNotice n (name f) error)])"
  using assms
  by (simp add: step_processImage_def callProcessImage_def tryCatch_def catchProcessing_def)

lemma step_processImage_returns:
  assumes "processImage h f (processImageArgs st c) = Inr processedImage"
  shows \<open>\<exists>r rest.
           step_processImage st h cursor f c lf rs p n =
             (r,
              ProcessImageCall f (processImageArgs st c) #
              showSizeComparisonNotification st (size_of f) (length processedImage) @
              (if revertToOriginalIfLarger st \<and> length processedImage > size_of f
               then [Notice (''Using original image for "'' @ name f @
                             ''" as processed image is larger.'')]
               else []) @
              CreateBinaryCall p
                (if revertToOriginalIfLarger st \<and> length processedImage > size_of f
                 then content f else processedImage) #
              rest) \<and>
           (\<forall>e. r \<noteq> Throw e) \<and>
           filter is_write rest = [] \<and> filter is_transcode rest = [] \<and>
           filter is_size_comparison rest = []\<close>
proof -
  have call: "callProcessImage h f (processImageArgs st c) =
      (Continue processedImage, [ProcessImageCall f (processImageArgs st c)])"
    using assms by (simp add: callProcessImage_def)
  have bin: "\<And>buffer.
      (\<exists>e. callCreateBinary h p buffer = (Throw e, [CreateBinaryCall p buffer])) \<or>
      (\<exists>t. callCreateBinary h p buffer = (Continue t, [CreateBinaryCall p buffer]))"
    by (simp add: callCreateBinary_def split: sum.splits)
  consider (revert) "revertToOriginalIfLarger st" "size_of f < length processedImage"
    | (off) "\<not> revertToOriginalIfLarger st"
    | (smaller) "\<not> size_of f < length processedImage"
    by blast
  then show ?thesis
  proof cases
    case revert
    from bin[of "content f"] show ?thesis
      by (elim disjE exE)
        (simp_all add: step_processImage_def call revert tryCatch_def catchProcessing_def)
  next
    case off
    from bin[of processedImage] show ?thesis
      by (elim disjE exE)
        (simp_all add: step_processImage_def call off tryCatch_def catchProcessing_def)
  next
    case smaller
    from bin[of processedImage] show ?thesis
      by (elim disjE exE)
        (simp_all add: step_processImage_def call smaller tryCatch_def catchProcessing_def)
  qed
qed

lemma in_filter_transcode:
  "ProcessImageCall g args \<in> set es \<Longrightarrow> ProcessImageCall g args \<in> set (filter is_transcode es)"
  by simp

lemma step_processImage_args:
  assumes "ProcessImageCall g args \<in> set (snd (step_processImage st h cursor f c lf rs p n))"
  shows "g = f \<and> args = processImageArgs st c"
proof (cases "processImage h f (processImageArgs st c)")
  case (Inl e)
  then show ?thesis using assms step_processImage_throws[OF Inl] by simp
next
  case (Inr b)
  from step_processImage_returns[OF Inr, of cursor lf rs p n] obtain r rest where
    s: "snd (step_processImage st h cursor f c lf rs p n) =
          ProcessImageCall f (processImageArgs st c) #
              showSizeComparisonNotification st (size_of f) (length b) @
              (if revertToOriginalIfLarger st \<and> length b > size_of f
               then [Notice (''Using original image for '' @ [CHR 0x22] @ name f @
                             [CHR 0x22] @ '' as processed image is larger.'')]
               else []) @
              CreateBinaryCall p
                (if revertToOriginalIfLarger st \<and> length b > size_of f
                 then content f else b) #
              rest"
    and q: "filter is_transcode rest = []"
    by auto
  from in_filter_transcode[OF assms] show ?thesis
    unfolding s using q by (simp split: if_splits)
qed

text \<open>What a unit is when its trace holds a call of the image processor.\<close>

lemma transcoding_unit:
  assumes "u = dropUnit st h cursor a f \<or> u = pasteUnit st h cursor a f"
    and "ProcessImageCall f args \<in> set (snd u)"
  obtains c lf rs logs dest nf sp where
    "args = processImageArgs st c"
    "sp = step_processImage st h cursor f c lf rs (combinePath h dest nf) nf"
    "u = (Fulfilled, logs @ EnsureFolderCall dest # snd (catchUnexpected sp))"
    "set logs \<subseteq> range ConsoleWarn"
proof -
  from assms(1) show ?thesis
  proof (cases rule: unit_cases)
    case (steps hr b logs)
    obtain c fn fo lf rs where b: "b = (c, fn, fo, lf, rs)" by (cases b) auto
    have "ProcessImageCall f args \<notin> set logs" using steps(3) by auto
    then have m: "ProcessImageCall f args \<in> set (snd (catchUnexpected (unitSteps hr st h cursor a f b)))"
      using assms(2) steps(2) by simp
    then have "ProcessImageCall f args \<in>
        set (filter is_transcode (snd (catchUnexpected (unitSteps hr st h cursor a f b))))"
      by simp
    then have "ProcessImageCall f args \<in>
        set (filter is_transcode (snd (unitSteps hr st h cursor a f (c, fn, fo, lf, rs))))"
      by (simp only: catchUnexpected_filters b)
    then have "filter is_transcode (snd (unitSteps hr st h cursor a f (c, fn, fo, lf, rs))) \<noteq> []"
      by force
    from unitSteps_transcode_shape[OF this] obtain dest nf where
      sh: "unitSteps hr st h cursor a f (c, fn, fo, lf, rs) =
           thenDo (Continue (), [EnsureFolderCall dest])
             (\<lambda>_. step_processImage st h cursor f c lf rs (combinePath h dest nf) nf)"
      by blast
    define sp where "sp = step_processImage st h cursor f c lf rs (combinePath h dest nf) nf"
    have us: "unitSteps hr st h cursor a f b = (fst sp, EnsureFolderCall dest # snd sp)"
      using sh by (simp add: b sp_def)
    have cu: "snd (catchUnexpected (fst sp, EnsureFolderCall dest # snd sp)) =
          EnsureFolderCall dest # snd (catchUnexpected sp)"
      by (cases sp; cases "fst sp") simp_all
    have u: "u = (Fulfilled, logs @ EnsureFolderCall dest # snd (catchUnexpected sp))"
      using steps(2) us cu by simp
    have "ProcessImageCall f args \<in> set (snd (catchUnexpected sp))"
      using m us cu by simp
    then have "ProcessImageCall f args \<in> set (filter is_transcode (snd (catchUnexpected sp)))"
      by simp
    then have "ProcessImageCall f args \<in> set (snd sp)"
      by (simp add: catchUnexpected_filters)
    then have ar: "args = processImageArgs st c"
      using step_processImage_args unfolding sp_def by blast
    show ?thesis by (rule that[OF ar sp_def u steps(3)])
  next
    case thrown
    then show ?thesis using in_filter_transcode[OF assms(2)] by simp
  qed
qed

lemma processingFailedNotice_Error:
  \<open>(includes_str message ''File already exists'' \<longrightarrow>
      processingFailedNotice newFilename fileName (Error message) =
        ''Failed to process image: File "'' @ newFilename @ ''" already exists.'') \<and>
   (\<not> includes_str message ''File already exists'' \<and>
    includes_str message ''Invalid input file type'' \<longrightarrow>
      processingFailedNotice newFilename fileName (Error message) =
        ''Failed to process image: Invalid input file type for "'' @ fileName @ ''".'') \<and>
   (\<not> includes_str message ''File already exists'' \<and>
    \<not> includes_str message ''Invalid input file type'' \<longrightarrow>
      processingFailedNotice newFilename fileName (Error message) =
        ''Failed to process image "'' @ fileName @ ''": '' @ message @
        ''. Check console for details.'')\<close>
  unfolding processingFailedNotice_def by simp

lemma processingFailedNotice_NonError:
  \<open>processingFailedNotice newFilename fileName NonError =
     ''Failed to process image "'' @ fileName @ ''". Check console for details.''\<close>
  unfolding processingFailedNotice_def by simp

text \<open>
  Claim C9. Take a unit, dropped or pasted, that calls the image processor, and let the call
  throw. The unit settles without rejecting; it makes no call of \<open>createBinary\<close> and no
  editor call; and it shows exactly one notice, chosen by the error's message: the
  already-exists notice when the message contains "File already exists", else the
  invalid-input notice when it contains "Invalid input file type", else the generic notice
  that quotes the message. (A thrown value that is no \<open>Error\<close> has no message to quote and
  gets the generic notice without one.) In an event that holds the file among others, the
  units of the other files are what they are without it.
\<close>

theorem transcoding_error_classification:
  assumes "u = dropUnit st h cursor a f \<or> u = pasteUnit st h cursor a f"
    and "ProcessImageCall f args \<in> set (snd u)"
    and "processImage h f args = Inl error"
  shows \<open>fst u = Fulfilled \<and>
         filter is_write (snd u) = [] \<and>
         filter is_editor_call (snd u) = [] \<and>
         (\<exists>newFilename text.
            filter is_notice (snd u) = [Notice text] \<and>
            (\<forall>message. error = Error message \<longrightarrow>
               (includes_str message ''File already exists'' \<longrightarrow>
                  text = ''Failed to process image: File "'' @ newFilename @
                         ''" already exists.'') \<and>
               (\<not> includes_str message ''File already exists'' \<and>
                includes_str message ''Invalid input file type'' \<longrightarrow>
                  text = ''Failed to process image: Invalid input file type for "'' @ name f @
                         ''".'') \<and>
               (\<not> includes_str message ''File already exists'' \<and>
                \<not> includes_str message ''Invalid input file type'' \<longrightarrow>
                  text = ''Failed to process image "'' @ name f @ ''": '' @ message @
                         ''. Check console for details.'')) \<and>
            (error = NonError \<longrightarrow>
               text = ''Failed to process image "'' @ name f @
                      ''". Check console for details.'')) \<and>
         (isSupported h (ftype f) (name f) \<and> getActiveFile h = Some a \<longrightarrow>
            snd (snd (handleDrop st h (before @ f # after) cursor)) =
              snd (snd (handleDrop st h before cursor)) @ dropUnit st h cursor a f #
              snd (snd (handleDrop st h after cursor))) \<and>
         (item_file d = Some f \<and> kind d = ''file'' \<and> isSupported h (item_type d) (name f) \<and>
          getActiveFile h = Some a \<longrightarrow>
            snd (snd (handlePaste st h (items @ d # others) cursor)) =
              snd (snd (handlePaste st h items cursor)) @ pasteUnit st h cursor a f #
              snd (snd (handlePaste st h others cursor)))\<close>
proof (rule transcoding_unit[OF assms(1,2)])
  fix c lf rs logs dest nf sp
  assume t: "args = processImageArgs st c"
    "sp = step_processImage st h cursor f c lf rs (combinePath h dest nf) nf"
    "u = (Fulfilled, logs @ EnsureFolderCall dest # snd (catchUnexpected sp))"
    "set logs \<subseteq> range ConsoleWarn"
  have sp: "sp = (Return,
            [ProcessImageCall f args, ConsoleError ''Image processing failed:'',
             Notice (processingFailedNotice nf (name f) error)])"
    using step_processImage_throws[of h f st c error] assms(3) t(1,2) by simp
  note w = warn_filters[OF t(4)]
  have u: "snd u = logs @ [EnsureFolderCall dest, ProcessImageCall f args,
             ConsoleError ''Image processing failed:'',
             Notice (processingFailedNotice nf (name f) error)]" "fst u = Fulfilled"
    using t(3) sp by simp_all
  have n: "filter is_notice (snd u) = [Notice (processingFailedNotice nf (name f) error)]"
    and wr: "filter is_write (snd u) = []" and ed: "filter is_editor_call (snd u) = []"
    unfolding u using w by simp_all
  have cl: \<open>\<exists>newFilename text.
            filter is_notice (snd u) = [Notice text] \<and>
            (\<forall>message. error = Error message \<longrightarrow>
               (includes_str message ''File already exists'' \<longrightarrow>
                  text = ''Failed to process image: File "'' @ newFilename @
                         ''" already exists.'') \<and>
               (\<not> includes_str message ''File already exists'' \<and>
                includes_str message ''Invalid input file type'' \<longrightarrow>
                  text = ''Failed to process image: Invalid input file type for "'' @ name f @
                         ''".'') \<and>
               (\<not> includes_str message ''File already exists'' \<and>
                \<not> includes_str message ''Invalid input file type'' \<longrightarrow>
                  text = ''Failed to process image "'' @ name f @ ''": '' @ message @
                         ''. Check console for details.'')) \<and>
            (error = NonError \<longrightarrow>
               text = ''Failed to process image "'' @ name f @
                      ''". Check console for details.'')\<close>
  proof (intro exI conjI allI impI)
    show "filter is_notice (snd u) = [Notice (processingFailedNotice nf (name f) error)]"
      by (rule n)
  next
    fix message assume e: "error = Error message"
    { assume "includes_str message ''File already exists''"
      then show \<open>processingFailedNotice nf (name f) error =
          ''Failed to process image: File "'' @ nf @ ''" already exists.''\<close>
        using processingFailedNotice_Error[of message nf "name f"] e by blast }
    { assume "\<not> includes_str message ''File already exists'' \<and>
                includes_str message ''Invalid input file type''"
      then show \<open>processingFailedNotice nf (name f) error =
          ''Failed to process image: Invalid input file type for "'' @ name f @ ''".''\<close>
        using processingFailedNotice_Error[of message nf "name f"] e by blast }
    { assume "\<not> includes_str message ''File already exists'' \<and>
                \<not> includes_str message ''Invalid input file type''"
      then show \<open>processingFailedNotice nf (name f) error =
          ''Failed to process image "'' @ name f @ ''": '' @ message @
                         ''. Check console for details.''\<close>
        using processingFailedNotice_Error[of message nf "name f"] e by blast }
  next
    assume "error = NonError"
    then show \<open>processingFailedNotice nf (name f) error =
          ''Failed to process image "'' @ name f @ ''". Check console for details.''\<close>
      using processingFailedNotice_NonError by blast
  qed
  have ds: "isSupported h (ftype f) (name f) \<and> getActiveFile h = Some a \<longrightarrow>
            snd (snd (handleDrop st h (before @ f # after) cursor)) =
              snd (snd (handleDrop st h before cursor)) @ dropUnit st h cursor a f #
              snd (snd (handleDrop st h after cursor))"
    using drop_siblings by blast
  have ps: "item_file d = Some f \<and> kind d = ''file'' \<and> isSupported h (item_type d) (name f) \<and>
          getActiveFile h = Some a \<longrightarrow>
            snd (snd (handlePaste st h (items @ d # others) cursor)) =
              snd (snd (handlePaste st h items cursor)) @ pasteUnit st h cursor a f #
              snd (snd (handlePaste st h others cursor))"
    using paste_siblings by blast
  from u(2) wr ed cl ds ps show ?thesis by (intro conjI)
qed

lemma run_invalid:
  \<open>dropUnit demo_settings host_invalid here today broken =
     (Fulfilled,
      [EnsureFolderCall ''attachments'',
       ProcessImageCall broken (''WEBP'', 4 / 5, 1, ''None'', 0, 0, 0, ''Auto'', False),
       ConsoleError ''Image processing failed:'',
       Notice ''Failed to process image: Invalid input file type for "broken.png".''])\<close>
  by (simp add: model_defs demo_defs)

theorem transcoding_error_classification_witness:
  \<open>fst (dropUnit demo_settings host_invalid here today broken) = Fulfilled \<and>
   filter is_write (snd (dropUnit demo_settings host_invalid here today broken)) = [] \<and>
   filter is_notice (snd (dropUnit demo_settings host_invalid here today broken)) =
     [Notice ''Failed to process image: Invalid input file type for "broken.png".'']\<close>
proof -
  have 1: "dropUnit demo_settings host_invalid here today broken =
             dropUnit demo_settings host_invalid here today broken \<or>
           dropUnit demo_settings host_invalid here today broken =
             pasteUnit demo_settings host_invalid here today broken"
    by simp
  have 2: "ProcessImageCall broken (''WEBP'', 4 / 5, 1, ''None'', 0, 0, 0, ''Auto'', False) \<in>
             set (snd (dropUnit demo_settings host_invalid here today broken))"
    by (simp add: run_invalid)
  have 3: "processImage host_invalid broken
             (''WEBP'', 4 / 5, 1, ''None'', 0, 0, 0, ''Auto'', False) =
           Inl (Error ''Invalid input file type'')"
    by (simp add: demo_defs)
  from transcoding_error_classification[OF 1 2 3]
  show ?thesis by (simp add: run_invalid)
qed

text \<open>
  Claim C2, as amended. Take a unit, dropped or pasted, that calls the image processor with
  \<open>revertToOriginalIfLarger\<close> set, and let the result be strictly larger than the file. Then
  the only write of the unit is \<open>createBinary\<close> with the bytes of the original file; the size
  comparison, shown when \<open>showSpaceSavedNotification\<close> is set, compares the original size with
  the size of the transcoded result, with the sign \<open>+\<close> and the difference of the two sizes;
  and a notice says that the original image is used.
\<close>

theorem revert_if_larger:
  assumes "u = dropUnit st h cursor a f \<or> u = pasteUnit st h cursor a f"
    and "ProcessImageCall f args \<in> set (snd u)"
    and "processImage h f args = Inr processedImage"
    and "revertToOriginalIfLarger st"
    and "size_of f < length processedImage"
  shows \<open>(\<exists>newFullPath. filter is_write (snd u) = [CreateBinaryCall newFullPath (content f)]) \<and>
         filter is_size_comparison (snd u) =
           (if showSpaceSavedNotification st
            then [SizeComparison (formatFileSize (size_of f))
                    (formatFileSize (length processedImage)) ''+''
                    (int (length processedImage) - int (size_of f)) (size_of f)]
            else []) \<and>
         Notice (''Using original image for "'' @ name f @ ''" as processed image is larger.'')
           \<in> set (snd u)\<close>
proof (rule transcoding_unit[OF assms(1,2)])
  fix c lf rs logs dest nf sp
  assume t: "args = processImageArgs st c"
    "sp = step_processImage st h cursor f c lf rs (combinePath h dest nf) nf"
    "u = (Fulfilled, logs @ EnsureFolderCall dest # snd (catchUnexpected sp))"
    "set logs \<subseteq> range ConsoleWarn"
  have pi: "processImage h f (processImageArgs st c) = Inr processedImage"
    using assms(3) t(1) by simp
  from step_processImage_returns[OF pi, of cursor lf rs "combinePath h dest nf" nf]
  obtain r rest where
    sp: \<open>sp = (r,
              ProcessImageCall f (processImageArgs st c) #
              showSizeComparisonNotification st (size_of f) (length processedImage) @
              [Notice (''Using original image for "'' @ name f @
                       ''" as processed image is larger.'')] @
              CreateBinaryCall (combinePath h dest nf) (content f) # rest)\<close>
    and r: "\<forall>e. r \<noteq> Throw e"
    and q: "filter is_write rest = []" "filter is_size_comparison rest = []"
    using assms(4,5) t(2) by auto
  have cu: "snd (catchUnexpected sp) = snd sp"
    using r sp by (cases r) simp_all
  note w = warn_filters[OF t(4)]
  have u: \<open>snd u = logs @ EnsureFolderCall dest #
              ProcessImageCall f (processImageArgs st c) #
              showSizeComparisonNotification st (size_of f) (length processedImage) @
              [Notice (''Using original image for "'' @ name f @
                       ''" as processed image is larger.'')] @
              CreateBinaryCall (combinePath h dest nf) (content f) # rest\<close>
    using t(3) cu sp by simp
  have a: "filter is_write (snd u) = [CreateBinaryCall (combinePath h dest nf) (content f)]"
    unfolding u using w q by simp
  have b: "filter is_size_comparison (snd u) =
      showSizeComparisonNotification st (size_of f) (length processedImage)"
    unfolding u using w q by simp
  have c: \<open>Notice (''Using original image for "'' @ name f @ ''" as processed image is larger.'')
           \<in> set (snd u)\<close>
    unfolding u by simp
  show ?thesis
    using a b c assms(5) by (simp add: showSizeComparisonNotification_def)
qed

lemma run_larger:
  \<open>dropUnit demo_settings host_larger here today photo =
     (Fulfilled,
      [EnsureFolderCall ''attachments'',
       ProcessImageCall photo (''WEBP'', 4 / 5, 1, ''None'', 0, 0, 0, ''Auto'', False),
       SizeComparison ''3 bytes'' ''5 bytes'' ''+'' 2 3,
       Notice ''Using original image for "photo.png" as processed image is larger.'',
       CreateBinaryCall ''attachments/photo.png'' [1, 2, 3],
       ReplaceRange ''![[attachments/photo.png]]'' here])\<close>
  by (simp add: model_defs demo_defs)

text \<open>
  The claim as the spec states it says that the notification shows the original size twice,
  a change of 0 percent. For a file of 3 bytes whose transcoded result has 5 bytes the
  original bytes are written, but the notification compares 3 bytes with 5 bytes.
\<close>

theorem revert_if_larger_counterexample:
  "revertToOriginalIfLarger demo_settings \<and>
   showSpaceSavedNotification demo_settings \<and>
   processImage host_larger photo (processImageArgs demo_settings (Some webp)) =
     Inr [1, 2, 3, 0, 0] \<and>
   size_of photo = 3 \<and>
   filter is_write (snd (dropUnit demo_settings host_larger here today photo)) =
     [CreateBinaryCall ''attachments/photo.png'' (content photo)] \<and>
   filter is_size_comparison (snd (dropUnit demo_settings host_larger here today photo)) =
     [SizeComparison ''3 bytes'' ''5 bytes'' ''+'' 2 3] \<and>
   filter is_size_comparison (snd (dropUnit demo_settings host_larger here today photo)) \<noteq>
     [SizeComparison (formatFileSize (size_of photo)) (formatFileSize (size_of photo)) [] 0
        (size_of photo)]"
  by (simp add: run_larger) (simp add: demo_defs size_of_def processImageArgs_def)

theorem revert_if_larger_witness:
  \<open>filter is_write (snd (dropUnit demo_settings host_larger here today photo)) =
     [CreateBinaryCall ''attachments/photo.png'' [1, 2, 3]] \<and>
   filter is_size_comparison (snd (dropUnit demo_settings host_larger here today photo)) =
     [SizeComparison ''3 bytes'' ''5 bytes'' ''+'' 2 3] \<and>
   Notice ''Using original image for "photo.png" as processed image is larger.''
     \<in> set (snd (dropUnit demo_settings host_larger here today photo))\<close>
proof -
  have 1: "dropUnit demo_settings host_larger here today photo =
             dropUnit demo_settings host_larger here today photo \<or>
           dropUnit demo_settings host_larger here today photo =
             pasteUnit demo_settings host_larger here today photo"
    by simp
  have 2: "ProcessImageCall photo (''WEBP'', 4 / 5, 1, ''None'', 0, 0, 0, ''Auto'', False) \<in>
             set (snd (dropUnit demo_settings host_larger here today photo))"
    by (simp add: run_larger)
  have 3: "processImage host_larger photo
             (''WEBP'', 4 / 5, 1, ''None'', 0, 0, 0, ''Auto'', False) = Inr [1, 2, 3, 0, 0]"
    by (simp add: demo_defs)
  have 4: "revertToOriginalIfLarger demo_settings" by (simp add: demo_defs)
  have 5: "size_of photo < length [1::nat, 2, 3, 0, 0]" by (simp add: size_of_def demo_defs)
  from revert_if_larger[OF 1 2 3 4 5]
  show ?thesis by (simp add: run_larger)
qed

section \<open>The two skip patterns\<close>

lemma unitSteps_skip_rename:
  assumes "should_skip_rename h (name f) p"
    and "es = snd (catchUnexpected (unitSteps hr st h cursor a f (c, Some p, fo, lf, rs)))"
  shows "filter is_transcode es = []"
    and "filter is_write es = []"
    and \<open>determineDestination h f a c (Some p) fo = Inr (dest, nf) \<Longrightarrow>
         ensureFolderExists h dest = None \<or>
         (\<exists>m. ensureFolderExists h dest = Some (Error m) \<and>
              startsWith m ''Folder already exists'') \<Longrightarrow>
         es = [EnsureFolderCall dest,
               Notice (''Skipped renaming/conversion of image "'' @ name f @
                       ''" due to skip pattern match.'')] @
              linkExisting st h cursor (getAbstractFileByPath h (dest @ ''/'' @ nf)) lf rs\<close>
proof -
  have k: \<open>\<And>d n. step_conflicts h f (Some p) d n =
      (Continue (n, getAbstractFileByPath h (d @ ''/'' @ n), True),
       [Notice (''Skipped renaming/conversion of image "'' @ name f @
                ''" due to skip pattern match.'')])\<close>
    using assms(1) by (simp add: step_conflicts_def Let_def)
  have r: "\<And>d n ex. step_processReuseOrSkip st h cursor f c (Some p) lf rs d n ex True =
      (Continue (), linkExisting st h cursor ex lf rs)"
    by (simp add: step_processReuseOrSkip_def)
  have run: \<open>es = [EnsureFolderCall d,
               Notice (''Skipped renaming/conversion of image "'' @ name f @
                       ''" due to skip pattern match.'')] @
              linkExisting st h cursor (getAbstractFileByPath h (d @ ''/'' @ n)) lf rs\<close>
    if "step_determineDestination h f a c (Some p) fo = (Continue (d, n), [])"
      and "step_ensureFolderExists hr h d = (Continue (), [EnsureFolderCall d])" for d n
    using that assms(2) by (simp add: unitSteps_def k r)
  show \<open>determineDestination h f a c (Some p) fo = Inr (dest, nf) \<Longrightarrow>
         ensureFolderExists h dest = None \<or>
         (\<exists>m. ensureFolderExists h dest = Some (Error m) \<and>
              startsWith m ''Folder already exists'') \<Longrightarrow>
         es = [EnsureFolderCall dest,
               Notice (''Skipped renaming/conversion of image "'' @ name f @
                       ''" due to skip pattern match.'')] @
              linkExisting st h cursor (getAbstractFileByPath h (dest @ ''/'' @ nf)) lf rs\<close>
    using run[of dest nf] folder_ok_step[of h dest hr]
    by (simp add: step_determineDestination_def)
  from step_determineDestination_cases[of h f a c "Some p" fo]
  consider (dest) d n where "step_determineDestination h f a c (Some p) fo = (Continue (d, n), [])"
    | (fail) es' where "step_determineDestination h f a c (Some p) fo = (Return, es')"
        "filter is_transcode es' = []" "filter is_write es' = []"
    by blast
  then have "filter is_transcode es = [] \<and> filter is_write es = []"
  proof cases
    case dest
    from step_ensureFolderExists_cases[of hr h d]
    consider (go) "step_ensureFolderExists hr h d = (Continue (), [EnsureFolderCall d])"
      | (stop) r' es' where "step_ensureFolderExists hr h d = (r', es')" "r' \<noteq> Continue ()"
          "filter is_transcode es' = []" "filter is_write es' = []"
      by blast
    then show ?thesis
    proof cases
      case go
      show ?thesis using run[OF dest go] by simp
    next
      case stop
      have "unitSteps hr st h cursor a f (c, Some p, fo, lf, rs) = (r', es')"
        using stop(1,2) dest by (cases r') (simp_all add: unitSteps_def)
      then show ?thesis using stop assms(2) by (simp add: catchUnexpected_filters)
    qed
  next
    case fail
    then have "unitSteps hr st h cursor a f (c, Some p, fo, lf, rs) = (Return, es')"
      by (simp add: unitSteps_def)
    then show ?thesis using fail assms(2) by simp
  qed
  then show "filter is_transcode es = []" "filter is_write es = []" by simp_all
qed

lemma unitSteps_skip_conversion:
  assumes "\<not> should_skip_rename h (name f) p"
    and "should_skip_conversion h (name f) cp"
    and "determineDestination h f a (Some cp) (Some p) fo = Inr (dest, nf)"
    and "ensureFolderExists h dest = None \<or>
         (\<exists>m. ensureFolderExists h dest = Some (Error m) \<and>
              startsWith m ''Folder already exists'')"
    and "if conflictResolution p = ''increment''
         then handleNameConflicts h dest nf ''increment'' = Inr final else final = nf"
    and "\<not> (getAbstractFileByPath h (dest @ ''/'' @ final) \<noteq> None \<and>
            conflictResolution p = ''reuse'')"
    and "createBinary h (combinePath h dest final) (content f) = Inr created"
  shows \<open>unitSteps hr st h cursor a f (Some cp, Some p, fo, lf, rs) =
           (Continue (),
            [EnsureFolderCall dest,
             Notice (''Skipped conversion of image "'' @ name f @
                     ''" due to skip pattern match in the conversion preset.''),
             CreateBinaryCall (combinePath h dest final) (content f)] @
            insertLinkAtCursorPosition st h (path created) cursor lf rs)\<close>
proof -
  have d: "step_determineDestination h f a (Some cp) (Some p) fo = (Continue (dest, nf), [])"
    using assms(3) by (simp add: step_determineDestination_def)
  note e = folder_ok_step[OF assms(4), of hr]
  define ex where "ex = getAbstractFileByPath h (dest @ ''/'' @ final)"
  have k: "step_conflicts h f (Some p) dest nf = (Continue (final, ex, False), [])"
    using assms(1,5) unfolding ex_def by (cases "conflictResolution p = ''increment''")
      (simp_all add: step_conflicts_def Let_def)
  have nr: "\<not> reusesExisting ex (Some p)"
    using assms(6) unfolding ex_def by (auto simp: reusesExisting_def split: option.splits)
  have sc: "skipsConversion h f (Some cp)"
    using assms(2) by (simp add: skipsConversion_def)
  have s: \<open>step_saveOriginal st h cursor f lf rs (combinePath h dest final) =
      (Continue (),
       [Notice (''Skipped conversion of image "'' @ name f @
                ''" due to skip pattern match in the conversion preset.''),
        CreateBinaryCall (combinePath h dest final) (content f)] @
       insertLinkAtCursorPosition st h (path created) cursor lf rs)\<close>
    using assms(7) by (simp add: step_saveOriginal_def callCreateBinary_def)
  have r: "step_processReuseOrSkip st h cursor f (Some cp) (Some p) lf rs dest final ex False =
      step_saveOriginal st h cursor f lf rs (combinePath h dest final)"
    using nr sc by (simp add: step_processReuseOrSkip_def)
  show ?thesis by (simp add: unitSteps_def d e k r s)
qed

text \<open>
  Claim C1, as amended. Take a unit, dropped or pasted, with a filename preset and a
  conversion preset. When the file's name matches a skip-rename pattern, the unit neither
  calls the image processor nor writes, whatever the skip-conversion patterns say; with the
  destination computed and its folder there, it only shows the notice "Skipped
  renaming/conversion" and links the entry at the computed path if there is one. When the
  name matches no skip-rename pattern but a skip-conversion pattern, and nothing else stops
  the unit (the destination is computed, its folder is there, the increment of the name
  succeeds if the preset asks for one, no existing entry is reused, the write succeeds), the
  unit writes the original bytes under the computed name, without calling the image
  processor, and links the written file.
\<close>

theorem skip_rename_gates_conversion:
  assumes "resolvePresets st h f = (Continue (Some cp, Some p, fo, lf, rs), logs)"
    and "u = dropUnit st h cursor a f \<or> u = pasteUnit st h cursor a f"
  shows \<open>(should_skip_rename h (name f) p \<longrightarrow>
            filter is_transcode (snd u) = [] \<and>
            filter is_write (snd u) = [] \<and>
            (determineDestination h f a (Some cp) (Some p) fo = Inr (dest, nf) \<and>
             (ensureFolderExists h dest = None \<or>
              (\<exists>m. ensureFolderExists h dest = Some (Error m) \<and>
                   startsWith m ''Folder already exists'')) \<longrightarrow>
             snd u =
               logs @
               [EnsureFolderCall dest,
                Notice (''Skipped renaming/conversion of image "'' @ name f @
                        ''" due to skip pattern match.'')] @
               (case getAbstractFileByPath h (dest @ ''/'' @ nf) of
                  None \<Rightarrow> []
                | Some existing \<Rightarrow>
                    insertLinkAtCursorPosition st h (path existing) cursor lf rs))) \<and>
         (\<not> should_skip_rename h (name f) p \<and>
          should_skip_conversion h (name f) cp \<and>
          determineDestination h f a (Some cp) (Some p) fo = Inr (dest, nf) \<and>
          (ensureFolderExists h dest = None \<or>
           (\<exists>m. ensureFolderExists h dest = Some (Error m) \<and>
                startsWith m ''Folder already exists'')) \<and>
          (if conflictResolution p = ''increment''
           then handleNameConflicts h dest nf ''increment'' = Inr final else final = nf) \<and>
          \<not> (getAbstractFileByPath h (dest @ ''/'' @ final) \<noteq> None \<and>
             conflictResolution p = ''reuse'') \<and>
          createBinary h (combinePath h dest final) (content f) = Inr created \<longrightarrow>
            filter is_transcode (snd u) = [] \<and>
            snd u =
              logs @
              [EnsureFolderCall dest,
               Notice (''Skipped conversion of image "'' @ name f @
                       ''" due to skip pattern match in the conversion preset.''),
               CreateBinaryCall (combinePath h dest final) (content f)] @
              insertLinkAtCursorPosition st h (path created) cursor lf rs)\<close>
proof -
  note w = warn_filters[OF resolvePresets_logs[OF assms(1)]]
  from unit_resolved[OF assms(1) assms(2)] obtain hr where
    u: "u = (Fulfilled,
             logs @ snd (catchUnexpected (unitSteps hr st h cursor a f
                                            (Some cp, Some p, fo, lf, rs))))"
    by blast
  define es where
    "es = snd (catchUnexpected (unitSteps hr st h cursor a f (Some cp, Some p, fo, lf, rs)))"
  have s: "snd u = logs @ es" using u es_def by simp
  have A: \<open>filter is_transcode (snd u) = [] \<and>
            filter is_write (snd u) = [] \<and>
            (determineDestination h f a (Some cp) (Some p) fo = Inr (dest, nf) \<and>
             (ensureFolderExists h dest = None \<or>
              (\<exists>m. ensureFolderExists h dest = Some (Error m) \<and>
                   startsWith m ''Folder already exists'')) \<longrightarrow>
             snd u =
               logs @
               [EnsureFolderCall dest,
                Notice (''Skipped renaming/conversion of image "'' @ name f @
                        ''" due to skip pattern match.'')] @
               (case getAbstractFileByPath h (dest @ ''/'' @ nf) of
                  None \<Rightarrow> []
                | Some existing \<Rightarrow>
                    insertLinkAtCursorPosition st h (path existing) cursor lf rs))\<close>
    if sk: "should_skip_rename h (name f) p"
  proof -
    note r = unitSteps_skip_rename[OF sk es_def]
    show ?thesis
      unfolding s using r(1,2) r(3)[of dest nf] w
      by (auto simp: linkExisting_def)
  qed
  have B: \<open>filter is_transcode (snd u) = [] \<and>
            snd u =
              logs @
              [EnsureFolderCall dest,
               Notice (''Skipped conversion of image "'' @ name f @
                       ''" due to skip pattern match in the conversion preset.''),
               CreateBinaryCall (combinePath h dest final) (content f)] @
              insertLinkAtCursorPosition st h (path created) cursor lf rs\<close>
    if "\<not> should_skip_rename h (name f) p"
      "should_skip_conversion h (name f) cp"
      "determineDestination h f a (Some cp) (Some p) fo = Inr (dest, nf)"
      "ensureFolderExists h dest = None \<or>
           (\<exists>m. ensureFolderExists h dest = Some (Error m) \<and>
                startsWith m ''Folder already exists'')"
      "if conflictResolution p = ''increment''
           then handleNameConflicts h dest nf ''increment'' = Inr final else final = nf"
      "\<not> (getAbstractFileByPath h (dest @ ''/'' @ final) \<noteq> None \<and>
             conflictResolution p = ''reuse'')"
      "createBinary h (combinePath h dest final) (content f) = Inr created"
  proof -
    note r = unitSteps_skip_conversion[OF that, of hr st cursor lf rs]
    show ?thesis unfolding s es_def r using w by simp
  qed
  show ?thesis using A B by blast
qed

lemma run_keepName:
  \<open>dropUnit settings_keepName demo_host here today photo =
     (Fulfilled,
      [EnsureFolderCall ''attachments'',
       Notice ''Skipped renaming/conversion of image "photo.png" due to skip pattern match.''])\<close>
  by (simp add: model_defs demo_defs)

lemma run_rawCopy:
  \<open>dropUnit settings_rawCopy demo_host here today photo =
     (Fulfilled,
      [EnsureFolderCall ''attachments'',
       Notice ''Skipped conversion of image "photo.png" due to skip pattern match in the conversion preset.'',
       CreateBinaryCall ''attachments/photo.png'' [1, 2, 3],
       ReplaceRange ''![[attachments/photo.png]]'' here])\<close>
  by (simp add: model_defs demo_defs)

text \<open>
  The claim as the spec states it says that a file matching a skip-rename pattern and no
  skip-conversion pattern is still transcoded. With the filename preset \<open>keep\<close>, whose skip
  pattern matches \<open>photo.png\<close>, and the conversion preset \<open>webp\<close>, which has no skip pattern,
  the unit calls the folder creation, shows one notice and does nothing else.
\<close>

theorem skip_independence_counterexample:
  \<open>resolvePresets settings_keepName demo_host photo =
     (Continue (Some webp, Some keepName, Some attachments, Some wikilink, Some noResize), []) \<and>
   should_skip_rename demo_host (name photo) keepName \<and>
   \<not> should_skip_conversion demo_host (name photo) webp \<and>
   dropUnit settings_keepName demo_host here today photo =
     (Fulfilled,
      [EnsureFolderCall ''attachments'',
       Notice ''Skipped renaming/conversion of image "photo.png" due to skip pattern match.'']) \<and>
   filter is_transcode (snd (dropUnit settings_keepName demo_host here today photo)) = [] \<and>
   filter is_write (snd (dropUnit settings_keepName demo_host here today photo)) = []\<close>
  by (simp add: run_keepName)
     (simp add: resolvePresets_def getPresetByName_def startsWith_def demo_defs)

theorem skip_rename_gates_conversion_witness:
  \<open>filter is_transcode (snd (dropUnit settings_keepName demo_host here today photo)) = [] \<and>
   snd (dropUnit settings_keepName demo_host here today photo) =
     [EnsureFolderCall ''attachments'',
      Notice ''Skipped renaming/conversion of image "photo.png" due to skip pattern match.''] \<and>
   snd (dropUnit settings_rawCopy demo_host here today photo) =
     [EnsureFolderCall ''attachments'',
      Notice ''Skipped conversion of image "photo.png" due to skip pattern match in the conversion preset.'',
      CreateBinaryCall ''attachments/photo.png'' [1, 2, 3],
      ReplaceRange ''![[attachments/photo.png]]'' here]\<close>
proof -
  have r1: "resolvePresets settings_keepName demo_host photo =
     (Continue (Some webp, Some keepName, Some attachments, Some wikilink, Some noResize), [])"
    and r2: "resolvePresets settings_rawCopy demo_host photo =
     (Continue (Some rawCopy, Some plainName, Some attachments, Some wikilink, Some noResize), [])"
    by (simp_all add: resolvePresets_def getPresetByName_def demo_defs)
  have u1: "dropUnit settings_keepName demo_host here today photo =
              dropUnit settings_keepName demo_host here today photo \<or>
            dropUnit settings_keepName demo_host here today photo =
              pasteUnit settings_keepName demo_host here today photo"
    and u2: "dropUnit settings_rawCopy demo_host here today photo =
              dropUnit settings_rawCopy demo_host here today photo \<or>
            dropUnit settings_rawCopy demo_host here today photo =
              pasteUnit settings_rawCopy demo_host here today photo"
    by simp_all
  have a: "should_skip_rename demo_host (name photo) keepName"
    "determineDestination demo_host photo today (Some webp) (Some keepName) (Some attachments) =
       Inr (''attachments'', ''photo.png'')"
    "ensureFolderExists demo_host ''attachments'' = None"
    "getAbstractFileByPath demo_host (''attachments'' @ ''/'' @ ''photo.png'') = None"
    by (simp_all add: startsWith_def demo_defs)
  have b: "\<not> should_skip_rename demo_host (name photo) plainName"
    "should_skip_conversion demo_host (name photo) rawCopy"
    "determineDestination demo_host photo today (Some rawCopy) (Some plainName) (Some attachments) =
       Inr (''attachments'', ''photo.png'')"
    "conflictResolution plainName = ''increment''"
    "handleNameConflicts demo_host ''attachments'' ''photo.png'' ''increment'' = Inr ''photo.png''"
    "createBinary demo_host (combinePath demo_host ''attachments'' ''photo.png'') (content photo) =
       Inr \<lparr>path = ''attachments/photo.png''\<rparr>"
    "combinePath demo_host ''attachments'' ''photo.png'' = ''attachments/photo.png''"
    "content photo = [1, 2, 3]"
    by (simp_all add: startsWith_def demo_defs)
  have l: "insertLinkAtCursorPosition settings_rawCopy demo_host ''attachments/photo.png'' here
             (Some wikilink) (Some noResize) = [ReplaceRange ''![[attachments/photo.png]]'' here]"
    by (simp add: insertLinkAtCursorPosition_def formattedLinkFor_def or_else_def demo_defs)
  from skip_rename_gates_conversion[OF r1 u1, where dest = "''attachments''"
         and nf = "''photo.png''"]
  have A: \<open>filter is_transcode (snd (dropUnit settings_keepName demo_host here today photo)) = [] \<and>
   snd (dropUnit settings_keepName demo_host here today photo) =
     [EnsureFolderCall ''attachments'',
      Notice ''Skipped renaming/conversion of image "photo.png" due to skip pattern match.'']\<close>
    using a by (simp add: photo_def)
  from skip_rename_gates_conversion[OF r2 u2, where dest = "''attachments''"
         and nf = "''photo.png''" and final = "''photo.png''"
         and created = "\<lparr>path = ''attachments/photo.png''\<rparr>"]
  have B: \<open>snd (dropUnit settings_rawCopy demo_host here today photo) =
     [EnsureFolderCall ''attachments'',
      Notice ''Skipped conversion of image "photo.png" due to skip pattern match in the conversion preset.'',
      CreateBinaryCall ''attachments/photo.png'' [1, 2, 3],
      ReplaceRange ''![[attachments/photo.png]]'' here]\<close>
    using b l a(3,4) by (simp add: photo_def)
  from A B show ?thesis by simp
qed

text \<open>
  Claim C3 says that a unit is made only for files that the capability registry accepts and
  that match no never-process pattern. \<open>secret.png\<close> matches the never-process pattern of the
  settings: dropped alone, it leaves the event to the host; dropped together with
  \<open>photo.png\<close>, it is transcoded, written and linked like the photo, because \<open>handleDrop\<close>
  filters by \<open>isSupported\<close> only.
\<close>

theorem never_process_file_is_processed:
  "isSupported demo_host (ftype secret) (name secret) \<and>
   matches_patterns demo_host (name secret) (neverProcessFilenames demo_settings) \<and>
   editor_drop demo_settings demo_host (Some [secret]) (Some here) = (Fulfilled, [], []) \<and>
   editor_drop demo_settings demo_host (Some [photo, secret]) (Some here) =
     (Fulfilled, [PreventDefault],
      [(Fulfilled,
        [EnsureFolderCall ''attachments'',
         ProcessImageCall photo (''WEBP'', 4 / 5, 1, ''None'', 0, 0, 0, ''Auto'', False),
         SizeComparison ''3 bytes'' ''1 bytes'' [] (- 2) 3,
         CreateBinaryCall ''attachments/photo.png'' [1],
         ReplaceRange ''![[attachments/photo.png]]'' here]),
       (Fulfilled,
        [EnsureFolderCall ''attachments'',
         ProcessImageCall secret (''WEBP'', 4 / 5, 1, ''None'', 0, 0, 0, ''Auto'', False),
         SizeComparison ''2 bytes'' ''1 bytes'' [] (- 1) 2,
         CreateBinaryCall ''attachments/secret.png'' [4],
         ReplaceRange ''![[attachments/secret.png]]'' here])])"
  by (simp add: editor_drop_def handleDrop_def model_defs demo_defs)

section \<open>The listeners\<close>

lemma editor_drop_filtered_empty:
  assumes "\<not> list_ex (\<lambda>d. isSupported h (ftype d) (name d) \<and>
                            \<not> matches_patterns h (name d) (neverProcessFilenames st)) fileData"
  shows "editor_drop st h (Some fileData) (Some p) = (Fulfilled, [], [])"
  using assms by (simp add: editor_drop_def)

lemma editor_drop_prevents_default:
  "PreventDefault \<in> set (fst (snd (editor_drop st h dataTransfer pos))) \<longleftrightarrow>
   (\<exists>fileData p. dataTransfer = Some fileData \<and> pos = Some p \<and>
      list_ex (\<lambda>d. isSupported h (ftype d) (name d) \<and>
                    \<not> matches_patterns h (name d) (neverProcessFilenames st)) fileData)"
  by (auto simp: editor_drop_def Let_def split: option.splits prod.splits)

text \<open>
  Claim C4 says that a throw inside a unit, also during preset resolution, is caught at the
  unit's boundary and that the join over the units never rejects. Three files are pasted
  with the preset dialog always shown, and the dialog throws for the second file: the first
  and the third unit write and link their files, but the second unit rejects and so does
  the join, because the \<open>try\<close> of \<open>handlePaste\<close> opens only after the presets are resolved.
  The same three files dropped settle without a rejection.
\<close>

theorem paste_join_rejects:
  "editor_paste settings_always host_modal_fails
     (Some [pasted photo, pasted broken, pasted secret]) here =
     (Rejected (Error ''The preset dialog failed''), [PreventDefault],
      [(Fulfilled,
        [EnsureFolderCall ''attachments'',
         ProcessImageCall photo (''WEBP'', 4 / 5, 1, ''None'', 0, 0, 0, ''Auto'', False),
         SizeComparison ''3 bytes'' ''1 bytes'' [] (- 2) 3,
         CreateBinaryCall ''attachments/photo.png'' [1],
         ReplaceRange ''![[attachments/photo.png]]'' here]),
       (Rejected (Error ''The preset dialog failed''), []),
       (Fulfilled,
        [EnsureFolderCall ''attachments'',
         ProcessImageCall secret (''WEBP'', 4 / 5, 1, ''None'', 0, 0, 0, ''Auto'', False),
         SizeComparison ''2 bytes'' ''1 bytes'' [] (- 1) 2,
         CreateBinaryCall ''attachments/secret.png'' [4],
         ReplaceRange ''![[attachments/secret.png]]'' here])]) \<and>
   fst (editor_drop settings_always host_modal_fails (Some [photo, broken, secret]) (Some here)) =
     Fulfilled"
  by (simp add: editor_paste_def handlePaste_def pastedFiles_def editor_drop_def handleDrop_def
      model_defs demo_defs)

lemma editor_drop_never_rejects: "fst (editor_drop st h dataTransfer pos) = Fulfilled"
  using handleDrop_never_rejects
  by (auto simp: editor_drop_def Let_def split: option.splits prod.splits)
     (metis fst_conv)

text \<open>A pasted unit rejects exactly when the resolution of its presets throws, and the
  join of a paste event rejects exactly when that happens for one of its files.\<close>

lemma pasteUnit_rejects_iff:
  "fst (pasteUnit st h cursor a f) = Rejected e \<longleftrightarrow> resolvePresets st h f = (Throw e, [])"
proof -
  from resolvePresets_cases[of st h f] show ?thesis
  proof (elim disjE exE)
    fix b logs assume r: "resolvePresets st h f = (Continue b, logs)"
    then show ?thesis using pasteUnit_resolved[OF r, of cursor a] by simp
  next
    fix e' assume r: "resolvePresets st h f = (Throw e', [])"
    then show ?thesis using pasteUnit_thrown[OF r, of cursor a] by auto
  qed
qed

lemma handlePaste_rejects_iff:
  assumes "getActiveFile h = Some a"
  shows "(\<exists>e. fst (handlePaste st h itemData cursor) = Rejected e) \<longleftrightarrow>
         (\<exists>f \<in> set (pastedFiles h itemData). \<exists>e. resolvePresets st h f = (Throw e, []))"
proof -
  have p: "\<And>rs. (\<exists>e. promiseAll rs = Rejected e) \<longleftrightarrow> (\<exists>r \<in> set rs. \<exists>e. r = Rejected e)"
  proof -
    fix rs show "(\<exists>e. promiseAll rs = Rejected e) \<longleftrightarrow> (\<exists>r \<in> set rs. \<exists>e. r = Rejected e)"
      by (induction rs rule: promiseAll.induct) auto
  qed
  have "fst (handlePaste st h itemData cursor) =
      promiseAll (map (\<lambda>f. fst (pasteUnit st h cursor a f)) (pastedFiles h itemData))"
    using assms by (simp add: handlePaste_def Let_def comp_def)
  then show ?thesis
    using p[of "map (\<lambda>f. fst (pasteUnit st h cursor a f)) (pastedFiles h itemData)"]
      pasteUnit_rejects_iff[of st h cursor a]
    by auto
qed

end
